theory Spec2Isabelle
  imports Complex_Main "HOL-Library.Sublist" "HOL-Library.AList"
begin

section \<open>Python values\<close>

text \<open>
  The status-report pipeline is Python. Its values are modelled as follows.

  \<^item> A \<open>str\<close> is a \<open>string\<close> whose characters are the code points U+0000 to U+00FF
    (Latin-1, which covers the Portuguese reports the pipeline reads); \<open>length\<close> counts
    characters as Python's \<open>len\<close> does. Texts with code points beyond U+00FF are outside
    the model.
  \<^item> A \<open>float\<close> is the real number it denotes, or one of the three special values. A decimal
    literal denotes its decimal value and arithmetic is exact: the rounding of binary64,
    overflow to infinity and the sign of zero are not modelled.
  \<^item> An exception is a value of \<open>pyerr\<close> carrying the text that \<open>str(e)\<close> gives; a function
    that can raise returns \<open>pyerr + 'a\<close>.
\<close>

abbreviation (input) A_acute :: char where "A_acute \<equiv> CHR 0xC1"
abbreviation (input) A_tilde :: char where "A_tilde \<equiv> CHR 0xC3"
abbreviation (input) C_cedil :: char where "C_cedil \<equiv> CHR 0xC7"
abbreviation (input) I_acute :: char where "I_acute \<equiv> CHR 0xCD"
abbreviation (input) O_acute :: char where "O_acute \<equiv> CHR 0xD3"
abbreviation (input) O_tilde :: char where "O_tilde \<equiv> CHR 0xD5"
abbreviation (input) U_acute :: char where "U_acute \<equiv> CHR 0xDA"
abbreviation (input) a_grave :: char where "a_grave \<equiv> CHR 0xE0"
abbreviation (input) a_acute :: char where "a_acute \<equiv> CHR 0xE1"
abbreviation (input) a_tilde :: char where "a_tilde \<equiv> CHR 0xE3"
abbreviation (input) c_cedil :: char where "c_cedil \<equiv> CHR 0xE7"
abbreviation (input) e_acute :: char where "e_acute \<equiv> CHR 0xE9"
abbreviation (input) e_circ :: char where "e_circ \<equiv> CHR 0xEA"
abbreviation (input) i_acute :: char where "i_acute \<equiv> CHR 0xED"
abbreviation (input) o_acute :: char where "o_acute \<equiv> CHR 0xF3"
abbreviation (input) o_tilde :: char where "o_tilde \<equiv> CHR 0xF5"
abbreviation (input) u_acute :: char where "u_acute \<equiv> CHR 0xFA"
abbreviation (input) apostrophe :: char where "apostrophe \<equiv> CHR 0x27"

datatype pyerr =
    TypeError string
  | ValueError string
  | ZeroDivisionError string
  | OverflowError string
  | IndexError string
  | KeyError string
  | AttributeError string

fun str_of_err :: "pyerr \<Rightarrow> string" where
  "str_of_err (TypeError m) = m"
| "str_of_err (ValueError m) = m"
| "str_of_err (ZeroDivisionError m) = m"
| "str_of_err (OverflowError m) = m"
| "str_of_err (IndexError m) = m"
| "str_of_err (KeyError m) = m"
| "str_of_err (AttributeError m) = m"

text \<open>Sequencing of computations that can raise: the first exception propagates.\<close>

definition then_do :: "pyerr + 'a \<Rightarrow> ('a \<Rightarrow> pyerr + 'b) \<Rightarrow> pyerr + 'b" where
  "then_do m f = (case m of Inl e \<Rightarrow> Inl e | Inr x \<Rightarrow> f x)"

datatype pyfloat = Fin real | PosInf | NegInf | NaN

datatype pyval =
    PNone
  | PBool bool
  | PInt int
  | PFloat pyfloat
  | PStr string
  | PList "pyval list"
  | PDict "(string \<times> pyval) list"

type_synonym pydict = "string \<rightharpoonup> pyval"

text \<open>\<open>d.get(k, default)\<close>\<close>

definition dict_get :: "pydict \<Rightarrow> string \<Rightarrow> pyval \<Rightarrow> pyval" where
  "dict_get d k dflt = (case d k of None \<Rightarrow> dflt | Some v \<Rightarrow> v)"

fun type_name :: "pyval \<Rightarrow> string" where
  "type_name PNone = ''NoneType''"
| "type_name (PBool _) = ''bool''"
| "type_name (PInt _) = ''int''"
| "type_name (PFloat _) = ''float''"
| "type_name (PStr _) = ''str''"
| "type_name (PList _) = ''list''"
| "type_name (PDict _) = ''dict''"

text \<open>Truth value of an object, as \<open>if\<close> and \<open>not\<close> test it. NaN and the infinities are true.\<close>

fun truthy :: "pyval \<Rightarrow> bool" where
  "truthy PNone = False"
| "truthy (PBool b) = b"
| "truthy (PInt i) = (i \<noteq> 0)"
| "truthy (PFloat f) = (f \<noteq> Fin 0)"
| "truthy (PStr s) = (s \<noteq> [])"
| "truthy (PList xs) = (xs \<noteq> [])"
| "truthy (PDict kvs) = (kvs \<noteq> [])"

subsection \<open>Numbers\<close>

text \<open>
  Order and equality of floats: every comparison with NaN is false. Integers compare with
  floats by their exact value.
\<close>

fun fl_lt :: "pyfloat \<Rightarrow> pyfloat \<Rightarrow> bool" where
  "fl_lt NaN _ = False"
| "fl_lt _ NaN = False"
| "fl_lt (Fin x) (Fin y) = (x < y)"
| "fl_lt _ NegInf = False"
| "fl_lt NegInf _ = True"
| "fl_lt PosInf _ = False"
| "fl_lt (Fin x) PosInf = True"

definition fl_eq :: "pyfloat \<Rightarrow> pyfloat \<Rightarrow> bool" where
  "fl_eq a b = (a \<noteq> NaN \<and> a = b)"

definition fl_gt :: "pyfloat \<Rightarrow> pyfloat \<Rightarrow> bool" where
  "fl_gt a b = fl_lt b a"

definition fl_ge :: "pyfloat \<Rightarrow> pyfloat \<Rightarrow> bool" where
  "fl_ge a b = (fl_lt b a \<or> fl_eq a b)"

text \<open>The numeric operand of a comparison or product: an \<open>int\<close> or a \<open>float\<close>.\<close>

datatype num = NInt int | NFloat pyfloat

fun num_val :: "num \<Rightarrow> pyfloat" where
  "num_val (NInt i) = Fin (of_int i)"
| "num_val (NFloat f) = f"

fun num_type_name :: "num \<Rightarrow> string" where
  "num_type_name (NInt _) = ''int''"
| "num_type_name (NFloat _) = ''float''"

fun as_num :: "pyval \<Rightarrow> num option" where
  "as_num (PBool b) = Some (NInt (if b then 1 else 0))"
| "as_num (PInt i) = Some (NInt i)"
| "as_num (PFloat f) = Some (NFloat f)"
| "as_num _ = None"

text \<open>
  \<open>a < b\<close>, \<open>a > b\<close> and \<open>a >= b\<close> where \<open>b\<close> is a number: a \<open>bool\<close>, \<open>int\<close> or \<open>float\<close> on
  the left is compared by value, anything else raises \<open>TypeError\<close>.
\<close>

definition py_compare ::
  "string \<Rightarrow> (pyfloat \<Rightarrow> pyfloat \<Rightarrow> bool) \<Rightarrow> pyval \<Rightarrow> num \<Rightarrow> pyerr + bool" where
  "py_compare opname rel a b =
     (case as_num a of
        Some x \<Rightarrow> Inr (rel (num_val x) (num_val b))
      | None \<Rightarrow> Inl (TypeError ([apostrophe] @ opname @ [apostrophe]
           @ '' not supported between instances of '' @ [apostrophe] @ type_name a @ [apostrophe]
           @ '' and '' @ [apostrophe] @ num_type_name b @ [apostrophe])))"

definition py_lt :: "pyval \<Rightarrow> num \<Rightarrow> pyerr + bool" where
  "py_lt = py_compare ''<'' fl_lt"

definition py_gt :: "pyval \<Rightarrow> num \<Rightarrow> pyerr + bool" where
  "py_gt = py_compare ''>'' fl_gt"

definition py_ge :: "pyval \<Rightarrow> num \<Rightarrow> pyerr + bool" where
  "py_ge = py_compare ''>='' fl_ge"

text \<open>
  Conversion of an \<open>int\<close> to \<open>float\<close> raises \<open>OverflowError\<close> from \<open>2^1024 - 2^970\<close> on, the
  first integer that rounds beyond the largest binary64 value.
\<close>

definition int_to_float :: "int \<Rightarrow> pyerr + pyfloat" where
  "int_to_float i =
     (if \<bar>i\<bar> \<ge> 2 ^ 1024 - 2 ^ 970 then Inl (OverflowError ''int too large to convert to float'')
      else Inr (Fin (of_int i)))"

text \<open>Product of floats; an infinity times zero is NaN.\<close>

fun fl_sgn :: "pyfloat \<Rightarrow> int" where
  "fl_sgn (Fin x) = (if x < 0 then - 1 else if x = 0 then 0 else 1)"
| "fl_sgn PosInf = 1"
| "fl_sgn NegInf = - 1"
| "fl_sgn NaN = 0"

fun fl_mul :: "pyfloat \<Rightarrow> pyfloat \<Rightarrow> pyfloat" where
  "fl_mul NaN _ = NaN"
| "fl_mul _ NaN = NaN"
| "fl_mul (Fin x) (Fin y) = Fin (x * y)"
| "fl_mul a b =
     (if fl_sgn a * fl_sgn b = 0 then NaN else if fl_sgn a * fl_sgn b > 0 then PosInf else NegInf)"

text \<open>Quotient of floats by a divisor that is not zero.\<close>

fun fl_div :: "pyfloat \<Rightarrow> pyfloat \<Rightarrow> pyfloat" where
  "fl_div NaN _ = NaN"
| "fl_div _ NaN = NaN"
| "fl_div (Fin x) (Fin y) = Fin (x / y)"
| "fl_div (Fin x) _ = Fin 0"
| "fl_div a (Fin y) = (if fl_sgn a * fl_sgn (Fin y) > 0 then PosInf else NegInf)"
| "fl_div _ _ = NaN"

fun num_to_float :: "num \<Rightarrow> pyerr + pyfloat" where
  "num_to_float (NInt i) = int_to_float i"
| "num_to_float (NFloat f) = Inr f"

text \<open>
  \<open>a / b\<close>. Two integers are divided exactly and the quotient must fit a float; otherwise
  both operands are converted to \<open>float\<close>. Division by zero raises.
\<close>

definition py_truediv :: "pyval \<Rightarrow> pyval \<Rightarrow> pyerr + pyval" where
  "py_truediv a b =
     (case (as_num a, as_num b) of
        (Some (NInt i), Some (NInt j)) \<Rightarrow>
          if j = 0 then Inl (ZeroDivisionError ''division by zero'')
          else if \<bar>real_of_int i / real_of_int j\<bar> \<ge> 2 ^ 1024 - 2 ^ 970
          then Inl (OverflowError ''integer division result too large for a float'')
          else Inr (PFloat (Fin (real_of_int i / real_of_int j)))
      | (Some x, Some y) \<Rightarrow>
          then_do (num_to_float x) (\<lambda>f.
          then_do (num_to_float y) (\<lambda>g.
            if g = Fin 0 then Inl (ZeroDivisionError ''float division by zero'')
            else Inr (PFloat (fl_div f g))))
      | _ \<Rightarrow>
          Inl (TypeError (''unsupported operand type(s) for /: '' @ [apostrophe] @ type_name a
                 @ [apostrophe] @ '' and '' @ [apostrophe] @ type_name b @ [apostrophe])))"

subsection \<open>Formatting with \<open>:.2f\<close>\<close>

fun digit_char :: "nat \<Rightarrow> char" where
  "digit_char n = char_of (48 + n)"

function digits :: "nat \<Rightarrow> string" where
  "digits n = (if n < 10 then [digit_char n] else digits (n div 10) @ [digit_char (n mod 10)])"
  by pat_completeness auto
termination
  by (relation "measure id") auto

declare digits.simps [simp del]

text \<open>Rounding to the nearest integer, ties to even, of a non-negative real.\<close>

definition round_half_even :: "real \<Rightarrow> nat" where
  "round_half_even r =
     (let n = nat \<lfloor>r\<rfloor>; d = r - of_int \<lfloor>r\<rfloor>
      in if d < 1 / 2 then n else if d > 1 / 2 then n + 1 else if even n then n else n + 1)"

fun float_2f :: "pyfloat \<Rightarrow> string" where
  "float_2f (Fin x) =
     (let n = round_half_even (\<bar>x\<bar> * 100)
      in (if x < 0 then ''-'' else '''') @ digits (n div 100) @ ''.''
           @ [digit_char (n mod 100 div 10), digit_char (n mod 10)])"
| "float_2f PosInf = ''inf''"
| "float_2f NegInf = ''-inf''"
| "float_2f NaN = ''nan''"

text \<open>\<open>f"{v:.2f}"\<close>: numbers are formatted as floats, other objects refuse the format.\<close>

fun format_2f :: "pyval \<Rightarrow> pyerr + string" where
  "format_2f (PFloat f) = Inr (float_2f f)"
| "format_2f (PInt i) = then_do (int_to_float i) (\<lambda>f. Inr (float_2f f))"
| "format_2f (PBool b) = Inr (float_2f (Fin (if b then 1 else 0)))"
| "format_2f (PStr s) =
     Inl (ValueError (''Unknown format code '' @ [apostrophe] @ ''f'' @ [apostrophe]
        @ '' for object of type '' @ [apostrophe] @ ''str'' @ [apostrophe]))"
| "format_2f v =
     Inl (TypeError (''unsupported format string passed to '' @ type_name v @ ''.__format__''))"

section \<open>String operations\<close>

text \<open>\<open>c.isspace()\<close> on the code points up to U+00FF.\<close>

definition isspace :: "char \<Rightarrow> bool" where
  "isspace c =
     (let n = (of_char c :: nat)
      in (9 \<le> n \<and> n \<le> 13) \<or> (28 \<le> n \<and> n \<le> 31) \<or> n = 32 \<or> n = 133 \<or> n = 160)"

text \<open>
  \<open>s.lower()\<close>: up to U+00FF the upper-case letters are A to Z and U+00C0 to U+00DE
  without the multiplication sign U+00D7; each is 32 below its lower-case letter.
\<close>

definition lower_char :: "char \<Rightarrow> char" where
  "lower_char c =
     (let n = (of_char c :: nat)
      in if (65 \<le> n \<and> n \<le> 90) \<or> (192 \<le> n \<and> n \<le> 214) \<or> (216 \<le> n \<and> n \<le> 222)
         then char_of (n + 32) else c)"

definition lower :: "string \<Rightarrow> string" where
  "lower s = map lower_char s"

text \<open>\<open>sub in s\<close> for strings: \<open>sub\<close> occurs in \<open>s\<close> as a contiguous substring.\<close>

fun str_in :: "string \<Rightarrow> string \<Rightarrow> bool" where
  "str_in sub [] = (sub = [])"
| "str_in sub (c # cs) = (prefix sub (c # cs) \<or> str_in sub cs)"

text \<open>\<open>s.split()\<close>: the maximal runs of characters that are not whitespace.\<close>

fun split_ws_acc :: "string \<Rightarrow> string \<Rightarrow> string list" where
  "split_ws_acc acc [] = (if acc = [] then [] else [rev acc])"
| "split_ws_acc acc (c # cs) =
     (if isspace c then (if acc = [] then split_ws_acc [] cs else rev acc # split_ws_acc [] cs)
      else split_ws_acc (c # acc) cs)"

definition split_ws :: "string \<Rightarrow> string list" where
  "split_ws s = split_ws_acc [] s"

text \<open>\<open>s.strip()\<close>\<close>

definition strip :: "string \<Rightarrow> string" where
  "strip s = rev (dropWhile isspace (rev (dropWhile isspace s)))"

text \<open>
  \<open>s.split(sep)\<close> for a separator that is not empty, as it is at every call of the
  pipeline: the pieces between the occurrences of \<open>sep\<close>, found from the left without
  overlap. (With an empty separator Python raises \<open>ValueError\<close>.)
\<close>

function split_acc :: "string \<Rightarrow> string \<Rightarrow> string \<Rightarrow> string list" where
  "split_acc sep acc [] = [rev acc]"
| "split_acc sep acc (c # cs) =
     (if sep \<noteq> [] \<and> prefix sep (c # cs)
      then rev acc # split_acc sep [] (drop (length sep) (c # cs))
      else split_acc sep (c # acc) cs)"
  by pat_completeness auto
termination
  by (relation "measure (\<lambda>(sep, acc, s). length s)") (auto simp: neq_Nil_conv)

definition split :: "string \<Rightarrow> string \<Rightarrow> string list" where
  "split sep s = split_acc sep [] s"

text \<open>\<open>s.replace(old, new)\<close> for a pattern \<open>old\<close> that is not empty, as it is at every call.\<close>

function replace :: "string \<Rightarrow> string \<Rightarrow> string \<Rightarrow> string" where
  "replace old new [] = []"
| "replace old new (c # cs) =
     (if old \<noteq> [] \<and> prefix old (c # cs)
      then new @ replace old new (drop (length old) (c # cs))
      else c # replace old new cs)"
  by pat_completeness auto
termination
  by (relation "measure (\<lambda>(old, new, s). length s)") (auto simp: neq_Nil_conv)

text \<open>\<open>xs[i]\<close> for an index that is not negative.\<close>

definition index :: "'a list \<Rightarrow> nat \<Rightarrow> pyerr + 'a" where
  "index xs i = (if i < length xs then Inr (xs ! i) else Inl (IndexError ''list index out of range''))"

subsection \<open>Parsing numbers\<close>

text \<open>
  \<open>float(s)\<close> and \<open>int(s)\<close> first turn the whitespace beyond ASCII into blanks and then
  drop the ASCII whitespace at both ends; the separators U+001C to U+001F are not dropped.
\<close>

definition number_space :: "char \<Rightarrow> bool" where
  "number_space c =
     (let n = (of_char c :: nat) in (9 \<le> n \<and> n \<le> 13) \<or> n = 32 \<or> n = 133 \<or> n = 160)"

definition number_strip :: "string \<Rightarrow> string" where
  "number_strip s = rev (dropWhile number_space (rev (dropWhile number_space s)))"

definition is_digit :: "char \<Rightarrow> bool" where
  "is_digit c = (let n = (of_char c :: nat) in 48 \<le> n \<and> n \<le> 57)"

definition digit_val :: "char \<Rightarrow> nat" where
  "digit_val c = of_char c - 48"

text \<open>The value of a string of decimal digits.\<close>

definition digits_val :: "string \<Rightarrow> nat" where
  "digits_val ds = foldl (\<lambda>n c. 10 * n + digit_val c) 0 ds"

text \<open>
  A digit part is a digit followed by digits, each optionally preceded by one underscore.
  \<open>digitpart_rest\<close> reads what follows the first digit and returns the digits read and the
  text left.
\<close>

fun digitpart_rest :: "string \<Rightarrow> string \<times> string" where
  "digitpart_rest [] = ([], [])"
| "digitpart_rest [c] = (if is_digit c then ([c], []) else ([], [c]))"
| "digitpart_rest (c # d # cs) =
     (if is_digit c then (let (ds, r) = digitpart_rest (d # cs) in (c # ds, r))
      else if c = CHR ''_'' \<and> is_digit d then (let (ds, r) = digitpart_rest cs in (d # ds, r))
      else ([], c # d # cs))"

fun digitpart :: "string \<Rightarrow> (string \<times> string) option" where
  "digitpart [] = None"
| "digitpart (c # cs) =
     (if is_digit c then (let (ds, r) = digitpart_rest cs in Some (c # ds, r)) else None)"

text \<open>An optional sign: whether it is a minus, and the text left.\<close>

fun opt_sign :: "string \<Rightarrow> bool \<times> string" where
  "opt_sign [] = (False, [])"
| "opt_sign (c # cs) =
     (if c = CHR ''-'' then (True, cs) else if c = CHR ''+'' then (False, cs) else (False, c # cs))"

text \<open>
  The number of a float literal: integer digits, fraction digits and the text left, for
  \<open>[digitpart] "." digitpart | digitpart ["."]\<close>.
\<close>

definition float_number :: "string \<Rightarrow> (string \<times> string \<times> string) option" where
  "float_number s =
     (case digitpart s of
        Some (ip, r) \<Rightarrow>
          (case r of
             [] \<Rightarrow> Some (ip, [], [])
           | c # r' \<Rightarrow>
               if c = CHR ''.'' then
                 (case digitpart r' of
                    Some (fp, r'') \<Rightarrow> Some (ip, fp, r'')
                  | None \<Rightarrow> Some (ip, [], r'))
               else Some (ip, [], r))
      | None \<Rightarrow>
          (case s of
             [] \<Rightarrow> None
           | c # r' \<Rightarrow>
               if c = CHR ''.'' then
                 (case digitpart r' of
                    Some (fp, r'') \<Rightarrow> Some ([], fp, r'')
                  | None \<Rightarrow> None)
               else None))"

text \<open>The exponent \<open>("e" | "E") [sign] digitpart\<close> up to the end of the text, or no text.\<close>

definition float_exponent :: "string \<Rightarrow> int option" where
  "float_exponent s =
     (case s of
        [] \<Rightarrow> Some 0
      | c # r \<Rightarrow>
          if c = CHR ''e'' \<or> c = CHR ''E'' then
            (let (neg, r') = opt_sign r
             in case digitpart r' of
                  Some (ds, []) \<Rightarrow> Some (if neg then - int (digits_val ds) else int (digits_val ds))
                | _ \<Rightarrow> None)
          else None)"

definition float_magnitude :: "string \<Rightarrow> pyfloat option" where
  "float_magnitude s =
     (if lower s = ''inf'' \<or> lower s = ''infinity'' then Some PosInf
      else if lower s = ''nan'' then Some NaN
      else case float_number s of
             None \<Rightarrow> None
           | Some (ip, fp, r) \<Rightarrow>
               (case float_exponent r of
                  None \<Rightarrow> None
                | Some e \<Rightarrow>
                    Some (Fin (real (digits_val (ip @ fp)) / 10 ^ length fp
                                * (if e \<ge> 0 then 10 ^ nat e else 1 / 10 ^ nat (- e))))))"

fun fl_neg :: "pyfloat \<Rightarrow> pyfloat" where
  "fl_neg (Fin x) = Fin (- x)"
| "fl_neg PosInf = NegInf"
| "fl_neg NegInf = PosInf"
| "fl_neg NaN = NaN"

text \<open>
  \<open>float(s)\<close> for a string. The text of the \<open>ValueError\<close> quotes the argument, as \<open>repr\<close> does
  for a string of printable characters.
\<close>

definition py_float :: "string \<Rightarrow> pyerr + pyfloat" where
  "py_float s =
     (let (neg, r) = opt_sign (number_strip s)
      in case float_magnitude r of
           Some f \<Rightarrow> Inr (if neg then fl_neg f else f)
         | None \<Rightarrow>
             Inl (ValueError (''could not convert string to float: '' @ [apostrophe] @ s
                    @ [apostrophe])))"

text \<open>
  \<open>int(s)\<close> for a string, in base 10. CPython refuses more than 4300 digits.
\<close>

definition py_int :: "string \<Rightarrow> pyerr + int" where
  "py_int s =
     (let (neg, r) = opt_sign (number_strip s)
      in case digitpart r of
           Some (ds, []) \<Rightarrow>
             if length ds > 4300 then
               Inl (ValueError (''Exceeds the limit (4300 digits) for integer string conversion: ''
                      @ ''value has '' @ digits (length ds)
                      @ '' digits; use sys.set_int_max_str_digits() to increase the limit''))
             else Inr (if neg then - int (digits_val ds) else int (digits_val ds))
         | _ \<Rightarrow>
             Inl (ValueError (''invalid literal for int() with base 10: '' @ [apostrophe] @ s
                    @ [apostrophe])))"

section \<open>Label-based extraction of a status report\<close>

text \<open>
  \<open>ScheduleAgent._extract_schedule_status\<close> and \<open>CostAgent._extract_cost_status\<close> read the
  report line by line. The first label of a fixed chain that occurs in the line decides what
  is stored; a numeric field is converted inside \<open>try\<close> with a bare \<open>except: pass\<close>.
\<close>

text \<open>A loop whose body can raise: the first exception ends it.\<close>

fun for_each :: "('s \<Rightarrow> 'a \<Rightarrow> pyerr + 's) \<Rightarrow> 's \<Rightarrow> 'a list \<Rightarrow> pyerr + 's" where
  "for_each body s [] = Inr s"
| "for_each body s (x # xs) = then_do (body s x) (\<lambda>s'. for_each body s' xs)"

text \<open>\<open>try: ... except: pass\<close> around an update of \<open>s\<close>: an exception leaves \<open>s\<close> as it was.\<close>

definition try_pass :: "'s \<Rightarrow> pyerr + 's \<Rightarrow> 's" where
  "try_pass s m = (case m of Inl e \<Rightarrow> s | Inr s' \<Rightarrow> s')"

text \<open>\<open>line.split(label)[1].strip()\<close>\<close>

definition after_label :: "string \<Rightarrow> string \<Rightarrow> pyerr + string" where
  "after_label label line = then_do (index (split label line) 1) (\<lambda>part. Inr (strip part))"

text \<open>A text field, stored as it is; the statement is not guarded.\<close>

definition text_field :: "pydict \<Rightarrow> string \<Rightarrow> string \<Rightarrow> string \<Rightarrow> pyerr + pydict" where
  "text_field st line label key =
     then_do (after_label label line) (\<lambda>v. Inr (st(key \<mapsto> PStr v)))"

text \<open>
  A numeric field: the text after the label is converted and stored, all inside the guarded
  block. The conversions are the expressions of the source.
\<close>

definition numeric_field ::
  "pydict \<Rightarrow> string \<Rightarrow> string \<Rightarrow> string \<Rightarrow> (string \<Rightarrow> pyerr + pyval) \<Rightarrow> pydict" where
  "numeric_field st line label key conv =
     try_pass st
       (then_do (after_label label line) (\<lambda>raw.
          then_do (conv raw) (\<lambda>v. Inr (st(key \<mapsto> v)))))"

text \<open>\<open>float(raw)\<close>\<close>

definition float_value :: "string \<Rightarrow> pyerr + pyval" where
  "float_value raw = then_do (py_float raw) (\<lambda>f. Inr (PFloat f))"

text \<open>\<open>float(raw.replace("%", ""))\<close>\<close>

definition percent_value :: "string \<Rightarrow> pyerr + pyval" where
  "percent_value raw = float_value (replace ''%'' '''' raw)"

text \<open>\<open>float(raw.replace("%", "").strip())\<close>\<close>

definition percent_strip_value :: "string \<Rightarrow> pyerr + pyval" where
  "percent_strip_value raw = float_value (strip (replace ''%'' '''' raw))"

text \<open>\<open>float(raw.replace("R$", "").strip())\<close>\<close>

definition currency_value :: "string \<Rightarrow> pyerr + pyval" where
  "currency_value raw = float_value (strip (replace ''R$'' '''' raw))"

text \<open>\<open>int(raw.split(" dias")[0])\<close>\<close>

definition days_value :: "string \<Rightarrow> pyerr + pyval" where
  "days_value raw =
     then_do (index (split '' dias'' raw) 0) (\<lambda>d. then_do (py_int d) (\<lambda>i. Inr (PInt i)))"

subsection \<open>Schedule status\<close>

text \<open>The body of the first loop of \<open>_extract_schedule_status\<close>.\<close>

definition schedule_line :: "pydict \<Rightarrow> string \<Rightarrow> pyerr + pydict" where
  "schedule_line st line =
     (if str_in ''Status atual:'' line then
        text_field st line ''Status atual:'' ''status''
      else if str_in (''Percentual de conclus'' @ [a_tilde] @ ''o:'') line then
        Inr (numeric_field st line (''Percentual de conclus'' @ [a_tilde] @ ''o:'')
               ''percentual_conclusao'' percent_value)
      else if str_in (''Data de in'' @ [i_acute] @ ''cio:'') line then
        text_field st line (''Data de in'' @ [i_acute] @ ''cio:'') ''data_inicio''
      else if str_in (''Data de t'' @ [e_acute] @ ''rmino planejada:'') line then
        text_field st line (''Data de t'' @ [e_acute] @ ''rmino planejada:'')
          ''data_termino_planejada''
      else if str_in (''Data de t'' @ [e_acute] @ ''rmino real/prevista:'') line then
        text_field st line (''Data de t'' @ [e_acute] @ ''rmino real/prevista:'')
          ''data_termino_real''
      else if str_in ''Atraso atual:'' line then
        Inr (numeric_field st line ''Atraso atual:'' ''atraso_dias'' days_value)
      else if str_in ''Motivo do atraso:'' line then
        text_field st line ''Motivo do atraso:'' ''motivo_atraso''
      else if str_in ([I_acute] @ ''ndice de Desempenho de Cronograma (SPI):'') line then
        Inr (numeric_field st line ([I_acute] @ ''ndice de Desempenho de Cronograma (SPI):'')
               ''spi'' float_value)
      else if str_in ''Valor Planejado (PV):'' line then
        Inr (numeric_field st line ''Valor Planejado (PV):'' ''valor_planejado'' currency_value)
      else if str_in ''Valor Agregado (EV):'' line then
        Inr (numeric_field st line ''Valor Agregado (EV):'' ''valor_agregado'' currency_value)
      else Inr st)"

text \<open>
  The body of the second loop: the critical and the delayed tasks collected so far and the
  two section flags.
\<close>

fun task_line ::
  "string list \<times> string list \<times> bool \<times> bool \<Rightarrow> string \<Rightarrow> string list \<times> string list \<times> bool \<times> bool"
  where
  "task_line (tarefas_criticas, tarefas_atrasadas, in_critical_section, in_delayed_section) line =
     (if str_in (''Tarefas cr'' @ [i_acute] @ ''ticas:'') line then
        (tarefas_criticas, tarefas_atrasadas, True, False)
      else if str_in ''Tarefas atrasadas:'' line then
        (tarefas_criticas, tarefas_atrasadas, False, True)
      else if strip line = '''' \<or> prefix (''RELAT'' @ [O_acute] @ ''RIO'') line then
        (tarefas_criticas, tarefas_atrasadas, False, False)
      else if in_critical_section \<and> prefix ''-'' (strip line) then
        (tarefas_criticas @ [strip (drop 2 (strip line))], tarefas_atrasadas,
         in_critical_section, in_delayed_section)
      else if in_delayed_section \<and> prefix ''-'' (strip line) then
        (tarefas_criticas, tarefas_atrasadas @ [strip (drop 2 (strip line))],
         in_critical_section, in_delayed_section)
      else (tarefas_criticas, tarefas_atrasadas, in_critical_section, in_delayed_section))"

definition extract_schedule_status :: "string \<Rightarrow> pyerr + pydict" where
  "extract_schedule_status content =
     (let lines = split [CHR 0x0A] content
      in then_do (for_each schedule_line Map.empty lines) (\<lambda>schedule_status.
           let (tarefas_criticas, tarefas_atrasadas, in_critical_section, in_delayed_section) =
                 foldl task_line ([], [], False, False) lines
           in Inr (schedule_status
                     (''tarefas_criticas'' \<mapsto> PList (map PStr tarefas_criticas),
                      ''tarefas_atrasadas'' \<mapsto> PList (map PStr tarefas_atrasadas)))))"

subsection \<open>Cost status\<close>

text \<open>The body of the first loop of \<open>_extract_cost_status\<close>.\<close>

definition cost_line :: "pydict \<Rightarrow> string \<Rightarrow> pyerr + pydict" where
  "cost_line st line =
     (if str_in (''Or'' @ [c_cedil] @ ''amento inicial:'') line then
        Inr (numeric_field st line (''Or'' @ [c_cedil] @ ''amento inicial:'')
               ''orcamento_inicial'' currency_value)
      else if str_in ''Custo real atual:'' line then
        Inr (numeric_field st line ''Custo real atual:'' ''custo_real'' currency_value)
      else if str_in (''Desvio or'' @ [c_cedil] @ ''ament'' @ [a_acute] @ ''rio:'') line then
        Inr (numeric_field st line (''Desvio or'' @ [c_cedil] @ ''ament'' @ [a_acute] @ ''rio:'')
               ''desvio_orcamento'' percent_strip_value)
      else if str_in ([I_acute] @ ''ndice de Desempenho de Custo (CPI):'') line then
        Inr (numeric_field st line ([I_acute] @ ''ndice de Desempenho de Custo (CPI):'')
               ''cpi'' float_value)
      else if str_in ''Valor Agregado (EV):'' line then
        Inr (numeric_field st line ''Valor Agregado (EV):'' ''valor_agregado'' currency_value)
      else if str_in (''Estimativa para conclus'' @ [a_tilde] @ ''o:'') line then
        Inr (numeric_field st line (''Estimativa para conclus'' @ [a_tilde] @ ''o:'')
               ''estimativa_conclusao'' currency_value)
      else if str_in (''Estimativa no t'' @ [e_acute] @ ''rmino (EAC):'') line then
        Inr (numeric_field st line (''Estimativa no t'' @ [e_acute] @ ''rmino (EAC):'')
               ''estimativa_termino'' currency_value)
      else if str_in (''Varia'' @ [c_cedil] @ [a_tilde] @ ''o no t'' @ [e_acute] @ ''rmino (VAC):'')
                line then
        Inr (numeric_field st line
               (''Varia'' @ [c_cedil] @ [a_tilde] @ ''o no t'' @ [e_acute] @ ''rmino (VAC):'')
               ''variacao_termino'' currency_value)
      else Inr st)"

text \<open>
  The guarded block of the second loop, for a bullet line of the category section:
  \<open>name: R$ value (pct%)\<close>. The categories are a dictionary in insertion order.
\<close>

definition category_entry :: "(string \<times> pyval) list \<Rightarrow> string \<Rightarrow> pyerr + (string \<times> pyval) list" where
  "category_entry categorias_custos line =
     (let parts = split '':'' (drop 2 (strip line))
      in if length parts \<ge> 2 then
           then_do (index parts 0) (\<lambda>p0.
           let categoria = strip p0
           in then_do (index parts 1) (\<lambda>p1.
           let valor_parts = split ''('' (strip p1)
           in then_do (index valor_parts 0) (\<lambda>v0.
           then_do (py_float (strip (replace ''R$'' '''' v0))) (\<lambda>valor.
           if length valor_parts > 1 then
             then_do (index valor_parts 1) (\<lambda>v1.
             then_do (py_float (strip (replace ''%)'' '''' v1))) (\<lambda>percentual.
               Inr (AList.update categoria
                      (PDict [(''valor'', PFloat valor), (''percentual'', PFloat percentual)])
                      categorias_custos)))
           else Inr (AList.update categoria (PDict [(''valor'', PFloat valor)])
                       categorias_custos)))))
         else Inr categorias_custos)"

fun category_line :: "(string \<times> pyval) list \<times> bool \<Rightarrow> string \<Rightarrow> (string \<times> pyval) list \<times> bool" where
  "category_line (categorias_custos, in_categories_section) line =
     (if str_in ''Detalhamento por categoria:'' line then (categorias_custos, True)
      else if strip line = '''' \<or> prefix (''RELAT'' @ [O_acute] @ ''RIO'') line then
        (categorias_custos, False)
      else if in_categories_section \<and> prefix ''-'' (strip line) then
        (try_pass categorias_custos (category_entry categorias_custos line),
         in_categories_section)
      else (categorias_custos, in_categories_section))"

definition extract_cost_status :: "string \<Rightarrow> pyerr + pydict" where
  "extract_cost_status content =
     (let lines = split [CHR 0x0A] content
      in then_do (for_each cost_line Map.empty lines) (\<lambda>cost_status.
           let (categorias_custos, in_categories_section) =
                 foldl category_line ([], False) lines
           in Inr (cost_status(''categorias_custos'' \<mapsto> PDict categorias_custos))))"

text \<open>
  The numeric fields of the two reports, for the statement of the extraction properties:
  the label, the key and the conversion of each guarded branch of \<open>schedule_line\<close> and of
  \<open>cost_line\<close>.
\<close>

definition schedule_numeric_fields :: "(string \<times> string \<times> (string \<Rightarrow> pyerr + pyval)) list" where
  "schedule_numeric_fields =
     [(''Percentual de conclus'' @ [a_tilde] @ ''o:'', ''percentual_conclusao'', percent_value),
      (''Atraso atual:'', ''atraso_dias'', days_value),
      ([I_acute] @ ''ndice de Desempenho de Cronograma (SPI):'', ''spi'', float_value),
      (''Valor Planejado (PV):'', ''valor_planejado'', currency_value),
      (''Valor Agregado (EV):'', ''valor_agregado'', currency_value)]"

definition cost_numeric_fields :: "(string \<times> string \<times> (string \<Rightarrow> pyerr + pyval)) list" where
  "cost_numeric_fields =
     [(''Or'' @ [c_cedil] @ ''amento inicial:'', ''orcamento_inicial'', currency_value),
      (''Custo real atual:'', ''custo_real'', currency_value),
      (''Desvio or'' @ [c_cedil] @ ''ament'' @ [a_acute] @ ''rio:'', ''desvio_orcamento'',
       percent_strip_value),
      ([I_acute] @ ''ndice de Desempenho de Custo (CPI):'', ''cpi'', float_value),
      (''Valor Agregado (EV):'', ''valor_agregado'', currency_value),
      (''Estimativa para conclus'' @ [a_tilde] @ ''o:'', ''estimativa_conclusao'', currency_value),
      (''Estimativa no t'' @ [e_acute] @ ''rmino (EAC):'', ''estimativa_termino'', currency_value),
      (''Varia'' @ [c_cedil] @ [a_tilde] @ ''o no t'' @ [e_acute] @ ''rmino (VAC):'',
       ''variacao_termino'', currency_value)]"

text \<open>The conversion applied to the text after the label, as the guarded block does.\<close>

definition parse_after :: "string \<Rightarrow> (string \<Rightarrow> pyerr + pyval) \<Rightarrow> string \<Rightarrow> pyerr + pyval" where
  "parse_after label conv line = then_do (after_label label line) conv"

section \<open>Metric derivation\<close>

text \<open>
  The derivation step of \<open>ScheduleAgent.analyze_schedule_file\<close>, between the extraction and
  the health classification: it returns the local \<open>spi\<close> and the status record, in which a
  derived index is stored.
\<close>

definition derive_spi :: "pydict \<Rightarrow> pyerr + pyval \<times> pydict" where
  "derive_spi schedule_status =
     (let spi = dict_get schedule_status ''spi'' PNone
      in if spi = PNone \<and> schedule_status ''valor_agregado'' \<noteq> None
            \<and> schedule_status ''valor_planejado'' \<noteq> None then
           (let ev = dict_get schedule_status ''valor_agregado'' (PInt 0);
                pv = dict_get schedule_status ''valor_planejado'' (PInt 0)
            in then_do (py_gt pv (NInt 0)) (\<lambda>positive.
                 if positive then
                   then_do (py_truediv ev pv) (\<lambda>q. Inr (q, schedule_status(''spi'' \<mapsto> q)))
                 else Inr (spi, schedule_status)))
         else Inr (spi, schedule_status))"

text \<open>The same step of \<open>CostAgent.analyze_cost_file\<close>, for the CPI.\<close>

definition derive_cpi :: "pydict \<Rightarrow> pyerr + pyval \<times> pydict" where
  "derive_cpi cost_status =
     (let cpi = dict_get cost_status ''cpi'' PNone
      in if cpi = PNone \<and> cost_status ''valor_agregado'' \<noteq> None
            \<and> cost_status ''custo_real'' \<noteq> None then
           (let ev = dict_get cost_status ''valor_agregado'' (PInt 0);
                ac = dict_get cost_status ''custo_real'' (PInt 0)
            in then_do (py_gt ac (NInt 0)) (\<lambda>positive.
                 if positive then
                   then_do (py_truediv ev ac) (\<lambda>q. Inr (q, cost_status(''cpi'' \<mapsto> q)))
                 else Inr (cpi, cost_status)))
         else Inr (cpi, cost_status))"

section \<open>Health classification\<close>

text \<open>
  \<open>ScheduleAgent._evaluate_schedule_health\<close> and \<open>CostAgent._evaluate_cost_health\<close>: the
  index is \<open>None\<close> when absent; the bands are tested from the top and the first that
  holds is returned.
\<close>

record health =
  status :: string
  description :: string

definition evaluate_schedule_health :: "pyval \<Rightarrow> pyerr + health" where
  "evaluate_schedule_health spi =
     (if spi = PNone then
        Inr \<lparr>status = ''unknown'',
             description = ''N'' @ [a_tilde] @ ''o foi poss'' @ [i_acute]
               @ ''vel determinar o status do cronograma devido '' @ [a_grave]
               @ '' falta de informa'' @ [c_cedil] @ [o_tilde] @ ''es.''\<rparr>
      else then_do (py_ge spi (NFloat (Fin 1.05))) (\<lambda>b1.
        if b1 then then_do (format_2f spi) (\<lambda>s.
          Inr \<lparr>status = ''excellent'',
               description = ''O projeto est'' @ [a_acute]
                 @ '' significativamente adiantado (SPI = '' @ s
                 @ ''). Verifique se a qualidade est'' @ [a_acute]
                 @ '' sendo mantida e considere realocar recursos.''\<rparr>)
        else then_do (py_ge spi (NFloat (Fin 0.95))) (\<lambda>b2.
        if b2 then then_do (format_2f spi) (\<lambda>s.
          Inr \<lparr>status = ''good'',
               description = ''O projeto est'' @ [a_acute]
                 @ '' no cronograma ou levemente adiantado (SPI = '' @ s
                 @ ''). Continue monitorando.''\<rparr>)
        else then_do (py_ge spi (NFloat (Fin 0.85))) (\<lambda>b3.
        if b3 then then_do (format_2f spi) (\<lambda>s.
          Inr \<lparr>status = ''warning'',
               description = ''O projeto est'' @ [a_acute] @ '' levemente atrasado (SPI = '' @ s
                 @ ''). A'' @ [c_cedil] @ [o_tilde] @ ''es preventivas s'' @ [a_tilde]
                 @ ''o recomendadas.''\<rparr>)
        else then_do (py_ge spi (NFloat (Fin 0.7))) (\<lambda>b4.
        if b4 then then_do (format_2f spi) (\<lambda>s.
          Inr \<lparr>status = ''critical'',
               description = ''O projeto est'' @ [a_acute]
                 @ '' significativamente atrasado (SPI = '' @ s
                 @ ''). A'' @ [c_cedil] @ [o_tilde] @ ''es corretivas s'' @ [a_tilde]
                 @ ''o necess'' @ [a_acute] @ ''rias.''\<rparr>)
        else then_do (format_2f spi) (\<lambda>s.
          Inr \<lparr>status = ''severe'',
               description = ''O projeto est'' @ [a_acute] @ '' severamente atrasado (SPI = '' @ s
                 @ ''). A'' @ [c_cedil] @ [o_tilde] @ ''es corretivas urgentes s'' @ [a_tilde]
                 @ ''o necess'' @ [a_acute] @ ''rias.''\<rparr>))))))"

definition evaluate_cost_health :: "pyval \<Rightarrow> pyerr + health" where
  "evaluate_cost_health cpi =
     (if cpi = PNone then
        Inr \<lparr>status = ''unknown'',
             description = ''N'' @ [a_tilde] @ ''o foi poss'' @ [i_acute]
               @ ''vel determinar o status dos custos devido '' @ [a_grave]
               @ '' falta de informa'' @ [c_cedil] @ [o_tilde] @ ''es.''\<rparr>
      else then_do (py_ge cpi (NFloat (Fin 1.1))) (\<lambda>b1.
        if b1 then then_do (format_2f cpi) (\<lambda>s.
          Inr \<lparr>status = ''excellent'',
               description = ''O projeto est'' @ [a_acute]
                 @ '' significativamente abaixo do or'' @ [c_cedil] @ ''amento (CPI = '' @ s
                 @ ''). Verifique se a qualidade est'' @ [a_acute]
                 @ '' sendo mantida e considere realocar recursos.''\<rparr>)
        else then_do (py_ge cpi (NFloat (Fin 1.0))) (\<lambda>b2.
        if b2 then then_do (format_2f cpi) (\<lambda>s.
          Inr \<lparr>status = ''good'',
               description = ''O projeto est'' @ [a_acute] @ '' dentro do or'' @ [c_cedil]
                 @ ''amento ou levemente abaixo (CPI = '' @ s @ ''). Continue monitorando.''\<rparr>)
        else then_do (py_ge cpi (NFloat (Fin 0.9))) (\<lambda>b3.
        if b3 then then_do (format_2f cpi) (\<lambda>s.
          Inr \<lparr>status = ''warning'',
               description = ''O projeto est'' @ [a_acute] @ '' levemente acima do or''
                 @ [c_cedil] @ ''amento (CPI = '' @ s
                 @ ''). A'' @ [c_cedil] @ [o_tilde] @ ''es preventivas s'' @ [a_tilde]
                 @ ''o recomendadas.''\<rparr>)
        else then_do (py_ge cpi (NFloat (Fin 0.8))) (\<lambda>b4.
        if b4 then then_do (format_2f cpi) (\<lambda>s.
          Inr \<lparr>status = ''critical'',
               description = ''O projeto est'' @ [a_acute] @ '' significativamente acima do or''
                 @ [c_cedil] @ ''amento (CPI = '' @ s
                 @ ''). A'' @ [c_cedil] @ [o_tilde] @ ''es corretivas s'' @ [a_tilde]
                 @ ''o necess'' @ [a_acute] @ ''rias.''\<rparr>)
        else then_do (format_2f cpi) (\<lambda>s.
          Inr \<lparr>status = ''severe'',
               description = ''O projeto est'' @ [a_acute] @ '' severamente acima do or''
                 @ [c_cedil] @ ''amento (CPI = '' @ s
                 @ ''). A'' @ [c_cedil] @ [o_tilde] @ ''es corretivas urgentes s'' @ [a_tilde]
                 @ ''o necess'' @ [a_acute] @ ''rias.''\<rparr>))))))"

text \<open>The status a classifier returns, or the exception it raises.\<close>

definition health_status :: "pyerr + health \<Rightarrow> pyerr + string" where
  "health_status r = map_sum id status r"

section \<open>Guard rails\<close>

subsection \<open>Operations used by the rule conditions\<close>

text \<open>\<open>data.get(k)\<close>, which is \<open>None\<close> for a missing key.\<close>

definition get :: "pydict \<Rightarrow> string \<Rightarrow> pyval" where
  "get d k = dict_get d k PNone"

text \<open>\<open>len(v)\<close>\<close>

fun py_len :: "pyval \<Rightarrow> pyerr + nat" where
  "py_len (PStr s) = Inr (length s)"
| "py_len (PList xs) = Inr (length xs)"
| "py_len (PDict kvs) = Inr (length kvs)"
| "py_len v =
     Inl (TypeError (''object of type '' @ [apostrophe] @ type_name v @ [apostrophe]
        @ '' has no len()''))"

text \<open>
  \<open>f * v\<close> for a float \<open>f\<close>: an \<open>int\<close> or \<open>bool\<close> is converted to \<open>float\<close> first, a sequence
  or any other object raises \<open>TypeError\<close>.
\<close>

fun py_float_mul :: "pyfloat \<Rightarrow> pyval \<Rightarrow> pyerr + pyfloat" where
  "py_float_mul f (PFloat g) = Inr (fl_mul f g)"
| "py_float_mul f (PInt i) = then_do (int_to_float i) (\<lambda>g. Inr (fl_mul f g))"
| "py_float_mul f (PBool b) = Inr (fl_mul f (Fin (if b then 1 else 0)))"
| "py_float_mul f (PStr s) =
     Inl (TypeError (''can'' @ [apostrophe] @ ''t multiply sequence by non-int of type ''
        @ [apostrophe] @ ''float'' @ [apostrophe]))"
| "py_float_mul f (PList xs) =
     Inl (TypeError (''can'' @ [apostrophe] @ ''t multiply sequence by non-int of type ''
        @ [apostrophe] @ ''float'' @ [apostrophe]))"
| "py_float_mul f v =
     Inl (TypeError (''unsupported operand type(s) for *: '' @ [apostrophe] @ ''float''
        @ [apostrophe] @ '' and '' @ [apostrophe] @ type_name v @ [apostrophe]))"

subsection \<open>Rule catalog\<close>

text \<open>
  A rule is a dictionary with the keys \<open>id\<close>, \<open>name\<close>, \<open>description\<close>, \<open>condition\<close>, \<open>action\<close>
  and \<open>message\<close>. The condition is a lambda over the data; it returns a \<open>bool\<close> or raises.
\<close>

record rule =
  rule_id :: string
  rule_name :: string
  rule_description :: string
  condition :: "pydict \<Rightarrow> pyerr + bool"
  action :: string
  message :: string

text \<open>The conditions of \<open>_load_schedule_rules\<close>.\<close>

definition cond_SCH_001 :: "pydict \<Rightarrow> pyerr + bool" where
  "cond_SCH_001 data =
     (if get data ''spi'' \<noteq> PNone then py_lt (get data ''spi'') (NFloat (Fin 0.8))
      else Inr False)"

definition cond_SCH_002 :: "pydict \<Rightarrow> pyerr + bool" where
  "cond_SCH_002 data =
     (if get data ''spi'' \<noteq> PNone then py_lt (get data ''spi'') (NFloat (Fin 0.9))
      else Inr False)"

definition cond_SCH_003 :: "pydict \<Rightarrow> pyerr + bool" where
  "cond_SCH_003 data =
     (if get data ''atraso_dias'' \<noteq> PNone then
        if get data ''duracao_planejada'' \<noteq> PNone then
          then_do (py_float_mul (Fin 0.1) (get data ''duracao_planejada'')) (\<lambda>limit.
            py_gt (get data ''atraso_dias'') (NFloat limit))
        else Inr False
      else Inr False)"

definition cond_SCH_004 :: "pydict \<Rightarrow> pyerr + bool" where
  "cond_SCH_004 data = Inr (get data ''replanejamento'' = PBool True)"

definition cond_SCH_005 :: "pydict \<Rightarrow> pyerr + bool" where
  "cond_SCH_005 data =
     (if get data ''spi'' \<noteq> PNone then
        then_do (py_lt (get data ''spi'') (NFloat (Fin 0.9))) (\<lambda>low.
          if low then
            if get data ''tarefas_criticas'' \<noteq> PNone then
              then_do (py_len (get data ''tarefas_criticas'')) (\<lambda>n. Inr (n > 0))
            else Inr False
          else Inr False)
      else Inr False)"

text \<open>The conditions of \<open>_load_cost_rules\<close>.\<close>

definition cond_COST_001 :: "pydict \<Rightarrow> pyerr + bool" where
  "cond_COST_001 data =
     (if get data ''cpi'' \<noteq> PNone then py_lt (get data ''cpi'') (NFloat (Fin 0.8))
      else Inr False)"

definition cond_COST_002 :: "pydict \<Rightarrow> pyerr + bool" where
  "cond_COST_002 data =
     (if get data ''cpi'' \<noteq> PNone then py_lt (get data ''cpi'') (NFloat (Fin 0.9))
      else Inr False)"

definition cond_COST_003 :: "pydict \<Rightarrow> pyerr + bool" where
  "cond_COST_003 data =
     (if get data ''desvio_orcamento'' \<noteq> PNone
      then py_gt (get data ''desvio_orcamento'') (NInt 10)
      else Inr False)"

definition cond_COST_004 :: "pydict \<Rightarrow> pyerr + bool" where
  "cond_COST_004 data =
     (if get data ''realocacao_orcamento'' \<noteq> PNone
      then py_gt (get data ''realocacao_orcamento'') (NInt 5)
      else Inr False)"

definition cond_COST_005 :: "pydict \<Rightarrow> pyerr + bool" where
  "cond_COST_005 data =
     (if get data ''cpi'' \<noteq> PNone then py_lt (get data ''cpi'') (NFloat (Fin 0.9))
      else Inr False)"

text \<open>
  The conditions of \<open>_load_scope_rules\<close>. Only the string \<open>'Sim'\<close> is equal to \<open>'Sim'\<close>.
\<close>

definition cond_SCOPE_001 :: "pydict \<Rightarrow> pyerr + bool" where
  "cond_SCOPE_001 data = Inr (get data ''mudanca_escopo'' = PStr ''Sim'')"

definition cond_SCOPE_002 :: "pydict \<Rightarrow> pyerr + bool" where
  "cond_SCOPE_002 data =
     (if get data ''impacto_cronograma'' \<noteq> PNone
      then py_gt (get data ''impacto_cronograma'') (NInt 10)
      else Inr False)"

definition cond_SCOPE_003 :: "pydict \<Rightarrow> pyerr + bool" where
  "cond_SCOPE_003 data =
     (if get data ''impacto_custo_percentual'' \<noteq> PNone
      then py_gt (get data ''impacto_custo_percentual'') (NInt 5)
      else Inr False)"

definition cond_SCOPE_004 :: "pydict \<Rightarrow> pyerr + bool" where
  "cond_SCOPE_004 data =
     (if get data ''num_mudancas_escopo'' \<noteq> PNone
      then py_gt (get data ''num_mudancas_escopo'') (NInt 3)
      else Inr False)"

definition cond_SCOPE_005 :: "pydict \<Rightarrow> pyerr + bool" where
  "cond_SCOPE_005 data = Inr (get data ''mudanca_escopo'' = PStr ''Sim'')"

text \<open>The conditions of \<open>_load_risk_rules\<close>.\<close>

definition cond_RISK_001 :: "pydict \<Rightarrow> pyerr + bool" where
  "cond_RISK_001 data =
     (if get data ''riscos_altos'' \<noteq> PNone
      then then_do (py_len (get data ''riscos_altos'')) (\<lambda>n. Inr (n > 0))
      else Inr False)"

definition cond_RISK_002 :: "pydict \<Rightarrow> pyerr + bool" where
  "cond_RISK_002 data =
     (if get data ''riscos_criticos'' \<noteq> PNone
      then then_do (py_len (get data ''riscos_criticos'')) (\<lambda>n. Inr (n > 0))
      else Inr False)"

definition cond_RISK_003 :: "pydict \<Rightarrow> pyerr + bool" where
  "cond_RISK_003 data = Inr True"

definition cond_RISK_004 :: "pydict \<Rightarrow> pyerr + bool" where
  "cond_RISK_004 data =
     (if get data ''novos_riscos_altos'' \<noteq> PNone
      then then_do (py_len (get data ''novos_riscos_altos'')) (\<lambda>n. Inr (n > 0))
      else Inr False)"

definition cond_RISK_005 :: "pydict \<Rightarrow> pyerr + bool" where
  "cond_RISK_005 data =
     (if get data ''riscos_alta_exposicao'' \<noteq> PNone
      then then_do (py_len (get data ''riscos_alta_exposicao'')) (\<lambda>n. Inr (n > 0))
      else Inr False)"

definition load_schedule_rules :: "rule list" where
  "load_schedule_rules =
     [\<lparr>rule_id = ''SCH-001'',
       rule_name =
         ''Notifica'' @ [c_cedil] @ [a_tilde] @ ''o para SPI cr'' @ [i_acute] @ ''tico'',
       rule_description =
         ''Qualquer SPI < 0.8 requer notifica'' @ [c_cedil] @ [a_tilde]
           @ ''o imediata ao gerente do projeto'',
       condition = cond_SCH_001,
       action = ''notify'',
       message =
         ''ALERTA CR'' @ [I_acute] @ ''TICO: O SPI est'' @ [a_acute]
           @ '' abaixo de 0.8, indicando atraso significativo no ''
           @ ''cronograma. Notifique imediatamente o gerente do projeto.''\<rparr>,
      \<lparr>rule_id = ''SCH-002'',
       rule_name =
         ''Plano de recupera'' @ [c_cedil] @ [a_tilde] @ ''o para SPI baixo'',
       rule_description =
         ''Qualquer SPI < 0.9 requer um plano de recupera'' @ [c_cedil] @ [a_tilde]
           @ ''o documentado'',
       condition = cond_SCH_002,
       action = ''require'',
       message =
         ''REQUISITO: O SPI est'' @ [a_acute] @ '' abaixo de 0.9. Um plano de recupera''
           @ [c_cedil] @ [a_tilde] @ ''o documentado '' @ [e_acute] @ '' necess'' @ [a_acute]
           @ ''rio.''\<rparr>,
      \<lparr>rule_id = ''SCH-003'',
       rule_name =
         ''Aprova'' @ [c_cedil] @ [a_tilde] @ ''o para extens'' @ [a_tilde] @ ''o de prazo'',
       rule_description =
         ''Extens'' @ [o_tilde] @ ''es de prazo > 10% da dura'' @ [c_cedil] @ [a_tilde]
           @ ''o original requerem aprova'' @ [c_cedil] @ [a_tilde] @ ''o formal'',
       condition = cond_SCH_003,
       action = ''require'',
       message =
         ''REQUISITO: A extens'' @ [a_tilde] @ ''o de prazo excede 10% da dura'' @ [c_cedil]
           @ [a_tilde] @ ''o original do projeto. Aprova'' @ [c_cedil] @ [a_tilde] @ ''o formal ''
           @ [e_acute] @ '' necess'' @ [a_acute] @ ''ria.''\<rparr>,
      \<lparr>rule_id = ''SCH-004'',
       rule_name =
         ''Revis'' @ [a_tilde] @ ''o da linha de base para replanejamento'',
       rule_description =
         ''Replanejamento de cronograma requer revis'' @ [a_tilde] @ ''o da linha de base'',
       condition = cond_SCH_004,
       action = ''require'',
       message =
         ''REQUISITO: O replanejamento do cronograma requer revis'' @ [a_tilde]
           @ ''o formal da linha de base.''\<rparr>,
      \<lparr>rule_id = ''SCH-005'',
       rule_name =
         ''Monitoramento di'' @ [a_acute] @ ''rio para tarefas cr'' @ [i_acute] @ ''ticas'',
       rule_description =
         ''Tarefas cr'' @ [i_acute] @ ''ticas devem ter monitoramento di'' @ [a_acute]
           @ ''rio quando SPI < 0.9'',
       condition = cond_SCH_005,
       action = ''recommend'',
       message =
         ''RECOMENDA'' @ [C_cedil] @ [A_tilde] @ ''O: Implemente monitoramento di''
           @ [a_acute] @ ''rio para todas as tarefas cr'' @ [i_acute]
           @ ''ticas devido ao SPI baixo.''\<rparr>]"

definition load_cost_rules :: "rule list" where
  "load_cost_rules =
     [\<lparr>rule_id = ''COST-001'',
       rule_name =
         ''Notifica'' @ [c_cedil] @ [a_tilde] @ ''o para CPI cr'' @ [i_acute] @ ''tico'',
       rule_description =
         ''Qualquer CPI < 0.8 requer notifica'' @ [c_cedil] @ [a_tilde]
           @ ''o imediata ao gerente do projeto'',
       condition = cond_COST_001,
       action = ''notify'',
       message =
         ''ALERTA CR'' @ [I_acute] @ ''TICO: O CPI est'' @ [a_acute]
           @ '' abaixo de 0.8, indicando desvio significativo nos custos. ''
           @ ''Notifique imediatamente o gerente do projeto.''\<rparr>,
      \<lparr>rule_id = ''COST-002'',
       rule_name =
         ''Plano de recupera'' @ [c_cedil] @ [a_tilde] @ ''o para CPI baixo'',
       rule_description =
         ''Qualquer CPI < 0.9 requer um plano de recupera'' @ [c_cedil] @ [a_tilde]
           @ ''o documentado'',
       condition = cond_COST_002,
       action = ''require'',
       message =
         ''REQUISITO: O CPI est'' @ [a_acute] @ '' abaixo de 0.9. Um plano de recupera''
           @ [c_cedil] @ [a_tilde] @ ''o documentado '' @ [e_acute] @ '' necess'' @ [a_acute]
           @ ''rio.''\<rparr>,
      \<lparr>rule_id = ''COST-003'',
       rule_name =
         ''Aprova'' @ [c_cedil] @ [a_tilde] @ ''o para gastos adicionais'',
       rule_description =
         ''Gastos adicionais > 10% do or'' @ [c_cedil] @ ''amento requerem aprova''
           @ [c_cedil] @ [a_tilde] @ ''o formal'',
       condition = cond_COST_003,
       action = ''require'',
       message =
         ''REQUISITO: Os gastos adicionais excedem 10% do or'' @ [c_cedil]
           @ ''amento. Aprova'' @ [c_cedil] @ [a_tilde] @ ''o formal '' @ [e_acute] @ '' necess''
           @ [a_acute] @ ''ria.''\<rparr>,
      \<lparr>rule_id = ''COST-004'',
       rule_name =
         ''Aprova'' @ [c_cedil] @ [a_tilde] @ ''o para realoca'' @ [c_cedil] @ [a_tilde]
           @ ''o de or'' @ [c_cedil] @ ''amento'',
       rule_description =
         ''Realoca'' @ [c_cedil] @ [a_tilde] @ ''o de or'' @ [c_cedil]
           @ ''amento entre categorias > 5% requer aprova'' @ [c_cedil] @ [a_tilde] @ ''o'',
       condition = cond_COST_004,
       action = ''require'',
       message =
         ''REQUISITO: A realoca'' @ [c_cedil] @ [a_tilde] @ ''o de or'' @ [c_cedil]
           @ ''amento entre categorias excede 5%. Aprova'' @ [c_cedil] @ [a_tilde] @ ''o formal ''
           @ [e_acute] @ '' necess'' @ [a_acute] @ ''ria.''\<rparr>,
      \<lparr>rule_id = ''COST-005'',
       rule_name =
         ''Rec'' @ [a_acute] @ ''lculo semanal da EAC'',
       rule_description =
         ''Estimativa no t'' @ [e_acute]
           @ ''rmino (EAC) deve ser recalculada semanalmente quando CPI < '' @ ''0.9'',
       condition = cond_COST_005,
       action = ''recommend'',
       message =
         ''RECOMENDA'' @ [C_cedil] @ [A_tilde] @ ''O: Recalcule a Estimativa no T''
           @ [e_acute] @ ''rmino (EAC) semanalmente devido ao CPI baixo.''\<rparr>]"

definition load_scope_rules :: "rule list" where
  "load_scope_rules =
     [\<lparr>rule_id = ''SCOPE-001'',
       rule_name =
         ''Documenta'' @ [c_cedil] @ [a_tilde] @ ''o formal para mudan'' @ [c_cedil]
           @ ''as de escopo'',
       rule_description =
         ''Todas as mudan'' @ [c_cedil] @ ''as de escopo requerem documenta'' @ [c_cedil]
           @ [a_tilde] @ ''o formal'',
       condition = cond_SCOPE_001,
       action = ''require'',
       message =
         ''REQUISITO: Todas as mudan'' @ [c_cedil] @ ''as de escopo requerem documenta''
           @ [c_cedil] @ [a_tilde] @ ''o formal.''\<rparr>,
      \<lparr>rule_id = ''SCOPE-002'',
       rule_name =
         ''Revis'' @ [a_tilde] @ ''o da linha de base para impacto no cronograma'',
       rule_description =
         ''Mudan'' @ [c_cedil] @ ''as com impacto no cronograma > 10 dias requerem revis''
           @ [a_tilde] @ ''o da linha de base'',
       condition = cond_SCOPE_002,
       action = ''require'',
       message =
         ''REQUISITO: A mudan'' @ [c_cedil]
           @ ''a de escopo tem impacto significativo no cronograma. Revis'' @ [a_tilde]
           @ ''o da linha de base '' @ [e_acute] @ '' necess'' @ [a_acute] @ ''ria.''\<rparr>,
      \<lparr>rule_id = ''SCOPE-003'',
       rule_name =
         ''Revis'' @ [a_tilde] @ ''o do or'' @ [c_cedil] @ ''amento para impacto no custo'',
       rule_description =
         ''Mudan'' @ [c_cedil] @ ''as com impacto no custo > 5% requerem revis'' @ [a_tilde]
           @ ''o do or'' @ [c_cedil] @ ''amento'',
       condition = cond_SCOPE_003,
       action = ''require'',
       message =
         ''REQUISITO: A mudan'' @ [c_cedil]
           @ ''a de escopo tem impacto significativo no custo. Revis'' @ [a_tilde] @ ''o do or''
           @ [c_cedil] @ ''amento '' @ [e_acute] @ '' necess'' @ [a_acute] @ ''ria.''\<rparr>,
      \<lparr>rule_id = ''SCOPE-004'',
       rule_name =
         ''Revis'' @ [a_tilde] @ ''o do plano para m'' @ [u_acute] @ ''ltiplas mudan''
           @ [c_cedil] @ ''as'',
       rule_description =
         ''Mais de 3 mudan'' @ [c_cedil] @ ''as de escopo requerem revis'' @ [a_tilde]
           @ ''o do plano de gerenciamento do projeto'',
       condition = cond_SCOPE_004,
       action = ''require'',
       message =
         ''REQUISITO: M'' @ [u_acute] @ ''ltiplas mudan'' @ [c_cedil]
           @ ''as de escopo foram identificadas. Revis'' @ [a_tilde]
           @ ''o do plano de gerenciamento do projeto '' @ [e_acute] @ '' necess'' @ [a_acute]
           @ ''ria.''\<rparr>,
      \<lparr>rule_id = ''SCOPE-005'',
       rule_name =
         ''An'' @ [a_acute] @ ''lise de impacto para mudan'' @ [c_cedil] @ ''as de escopo'',
       rule_description =
         ''Todas as mudan'' @ [c_cedil] @ ''as de escopo devem incluir an'' @ [a_acute]
           @ ''lise de impacto em cronograma e custos'',
       condition = cond_SCOPE_005,
       action = ''require'',
       message =
         ''REQUISITO: Todas as mudan'' @ [c_cedil] @ ''as de escopo devem incluir an''
           @ [a_acute] @ ''lise de impacto em cronograma e custos.''\<rparr>]"

definition load_risk_rules :: "rule list" where
  "load_risk_rules =
     [\<lparr>rule_id = ''RISK-001'',
       rule_name =
         ''Planos de mitiga'' @ [c_cedil] @ [a_tilde] @ ''o para riscos altos'',
       rule_description =
         ''Riscos com n'' @ [i_acute] @ ''vel '' @ [CHR 0x27] @ ''Alto'' @ [CHR 0x27]
           @ '' requerem planos de mitiga'' @ [c_cedil] @ [a_tilde] @ ''o documentados'',
       condition = cond_RISK_001,
       action = ''require'',
       message =
         ''REQUISITO: Todos os riscos de n'' @ [i_acute] @ ''vel '' @ [CHR 0x27] @ ''Alto''
           @ [CHR 0x27] @ '' requerem planos de mitiga'' @ [c_cedil] @ [a_tilde]
           @ ''o documentados.''\<rparr>,
      \<lparr>rule_id = ''RISK-002'',
       rule_name =
         ''Planos de conting'' @ [e_circ] @ ''ncia para riscos cr'' @ [i_acute] @ ''ticos'',
       rule_description =
         ''Riscos com probabilidade >= 4 e impacto >= 4 requerem '' @ ''planos de conting''
           @ [e_circ] @ ''ncia'',
       condition = cond_RISK_002,
       action = ''require'',
       message =
         ''REQUISITO: Todos os riscos cr'' @ [i_acute]
           @ ''ticos (probabilidade >= 4 e impacto >= 4) requerem planos '' @ ''de conting''
           @ [e_circ] @ ''ncia.''\<rparr>,
      \<lparr>rule_id = ''RISK-003'',
       rule_name =
         ''Revis'' @ [a_tilde] @ ''o quinzenal do registro de riscos'',
       rule_description =
         ''Registro de riscos deve ser revisado pelo menos '' @ ''quinzenalmente'',
       condition = cond_RISK_003,
       action = ''recommend'',
       message =
         ''RECOMENDA'' @ [C_cedil] @ [A_tilde]
           @ ''O: O registro de riscos deve ser revisado pelo menos '' @ ''quinzenalmente.''\<rparr>,
      \<lparr>rule_id = ''RISK-004'',
       rule_name =
         ''Notifica'' @ [c_cedil] @ [a_tilde] @ ''o para novos riscos altos'',
       rule_description =
         ''Novos riscos identificados com n'' @ [i_acute] @ ''vel '' @ [CHR 0x27] @ ''Alto''
           @ [CHR 0x27] @ '' requerem notifica'' @ [c_cedil] @ [a_tilde]
           @ ''o imediata ao gerente do projeto'',
       condition = cond_RISK_004,
       action = ''notify'',
       message =
         ''ALERTA: Novos riscos de n'' @ [i_acute] @ ''vel '' @ [CHR 0x27] @ ''Alto''
           @ [CHR 0x27] @ '' foram identificados. Notifique imediatamente o gerente do ''
           @ ''projeto.''\<rparr>,
      \<lparr>rule_id = ''RISK-005'',
       rule_name =
         ''Monitoramento semanal para riscos de alta exposi'' @ [c_cedil] @ [a_tilde] @ ''o'',
       rule_description =
         ''Riscos com valor de exposi'' @ [c_cedil] @ [a_tilde]
           @ ''o (probabilidade * impacto) >= 12 requerem monitoramento '' @ ''semanal'',
       condition = cond_RISK_005,
       action = ''recommend'',
       message =
         ''RECOMENDA'' @ [C_cedil] @ [A_tilde]
           @ ''O: Implemente monitoramento semanal para todos os riscos ''
           @ ''com valor de exposi'' @ [c_cedil] @ [a_tilde] @ ''o >= 12.''\<rparr>]"

text \<open>\<open>self.rules\<close>, the catalog of each domain.\<close>

definition rules :: "string \<rightharpoonup> rule list" where
  "rules =
     [''cronograma'' \<mapsto> load_schedule_rules,
      ''custos'' \<mapsto> load_cost_rules,
      ''escopo'' \<mapsto> load_scope_rules,
      ''riscos'' \<mapsto> load_risk_rules]"

subsection \<open>Validation of a data record\<close>

text \<open>
  A validation message is a dictionary with the keys \<open>rule_id\<close>, \<open>rule_name\<close>, \<open>message\<close> and
  \<open>action\<close>, or, for an unknown domain, a bare string. The \<open>validation_date\<close> of the results
  is the reading of the wall clock and is left out.
\<close>

datatype message =
    Bare string
  | Msg (msg_rule_id: string) (msg_rule_name: string) (msg_message: string) (msg_action: string)

record validation =
  valid :: bool
  messages :: "message list"

text \<open>\<open>_check_requirement_met\<close>: the value of the flag \<open>requirement_<id>_met\<close>, or \<open>False\<close>.\<close>

definition check_requirement_met :: "rule \<Rightarrow> pydict \<Rightarrow> pyval" where
  "check_requirement_met r data =
     dict_get data (''requirement_'' @ rule_id r @ ''_met'') (PBool False)"

text \<open>
  The body of the loop of \<open>validate\<close> for one rule, on the messages and the flag so far.
  An exception raised by the condition is caught and reported as a message of action
  \<open>error\<close>.
\<close>

definition validate_rule :: "pydict \<Rightarrow> message list \<times> bool \<Rightarrow> rule \<Rightarrow> message list \<times> bool" where
  "validate_rule data st r =
     (case condition r data of
        Inr fired \<Rightarrow>
          if fired then
            (let msgs = fst st @ [Msg (rule_id r) (rule_name r) (message r) (action r)]
             in if action r = ''require'' \<and> \<not> truthy (check_requirement_met r data)
                then (msgs, False) else (msgs, snd st))
          else st
      | Inl e \<Rightarrow>
          (fst st @ [Msg (rule_id r) (rule_name r)
                       (''Erro ao aplicar regra: '' @ str_of_err e) ''error''],
           snd st))"

definition validate :: "string \<Rightarrow> pydict \<Rightarrow> validation" where
  "validate domain data =
     (case rules domain of
        None \<Rightarrow>
          \<lparr>valid = False,
           messages = [Bare (''Dom'' @ [i_acute] @ ''nio inv'' @ [a_acute] @ ''lido: '' @ domain)]\<rparr>
      | Some rs \<Rightarrow>
          (let st = foldl (validate_rule data) ([], True) rs
           in \<lparr>valid = snd st, messages = fst st\<rparr>))"

text \<open>The four domains that have a catalog.\<close>

definition known_domains :: "string set" where
  "known_domains = {''cronograma'', ''custos'', ''escopo'', ''riscos''}"

text \<open>
  What one rule, taken alone, contributes to the messages: its own message when its
  condition holds, a message of action \<open>error\<close> with the exception text when the
  condition raises, nothing otherwise. The theorems compare the loop of \<open>validate\<close> with it.
\<close>

definition rule_messages :: "pydict \<Rightarrow> rule \<Rightarrow> message list" where
  "rule_messages data r =
     (case condition r data of
        Inr fired \<Rightarrow>
          if fired then [Msg (rule_id r) (rule_name r) (message r) (action r)] else []
      | Inl e \<Rightarrow>
          [Msg (rule_id r) (rule_name r) (''Erro ao aplicar regra: '' @ str_of_err e) ''error''])"

subsection \<open>Validation of recommendations\<close>

text \<open>\<open>_extract_keywords\<close>\<close>

definition extract_keywords :: "string \<Rightarrow> string list" where
  "extract_keywords topic =
     filter (\<lambda>word. length word > 4
               \<and> word \<notin> set [''para'', ''com'', ''que'', ''deve'', ''quando'', ''requer''])
       (split_ws (lower topic))"

text \<open>\<open>_topic_covered_in_recommendations\<close>: the first recommendation with a keyword decides.\<close>

fun topic_covered_loop :: "string list \<Rightarrow> string list \<Rightarrow> bool" where
  "topic_covered_loop keywords [] = False"
| "topic_covered_loop keywords (recommendation # rest) =
     (let recommendation_lower = lower recommendation
      in if list_ex (\<lambda>keyword. str_in keyword recommendation_lower) keywords then True
         else topic_covered_loop keywords rest)"

definition topic_covered_in_recommendations :: "string \<Rightarrow> string list \<Rightarrow> bool" where
  "topic_covered_in_recommendations topic recommendations =
     topic_covered_loop (extract_keywords topic) recommendations"

record recommendation_validation =
  rec_valid :: bool
  missing_topics :: "string list"
  additional_recommendations :: "string list"
  validation_messages :: "message list"

text \<open>
  Reading a key of a message: a bare string has no keys, and indexing it with a string
  raises \<open>TypeError\<close>.
\<close>

fun message_key :: "(message \<Rightarrow> string) \<Rightarrow> message \<Rightarrow> pyerr + string" where
  "message_key sel (Bare s) =
     Inl (TypeError (''string indices must be integers, not '' @ [apostrophe] @ ''str''
        @ [apostrophe]))"
| "message_key sel m = Inr (sel m)"

text \<open>The three loops of \<open>validate_recommendations\<close>.\<close>

fun required_topics_loop :: "message list \<Rightarrow> string list \<Rightarrow> pyerr + string list" where
  "required_topics_loop [] required_topics = Inr required_topics"
| "required_topics_loop (m # ms) required_topics =
     then_do (message_key msg_action m) (\<lambda>a.
       if a = ''require'' then
         then_do (message_key msg_rule_name m) (\<lambda>n.
           required_topics_loop ms (required_topics @ [n]))
       else required_topics_loop ms required_topics)"

fun missing_topics_loop :: "string list \<Rightarrow> string list \<Rightarrow> string list \<Rightarrow> string list" where
  "missing_topics_loop [] recommendations missing = missing"
| "missing_topics_loop (topic # topics) recommendations missing =
     (if \<not> topic_covered_in_recommendations topic recommendations
      then missing_topics_loop topics recommendations (missing @ [topic])
      else missing_topics_loop topics recommendations missing)"

fun additional_loop :: "message list \<Rightarrow> string list \<Rightarrow> string list \<Rightarrow> pyerr + string list" where
  "additional_loop [] missing additional = Inr additional"
| "additional_loop (m # ms) missing additional =
     then_do (message_key msg_action m) (\<lambda>a.
       then_do (if a = ''recommend'' then Inr True
                else if a = ''require''
                     then then_do (message_key msg_rule_name m) (\<lambda>n. Inr (n \<in> set missing))
                     else Inr False) (\<lambda>wanted.
         if wanted then
           then_do (message_key msg_message m) (\<lambda>t. additional_loop ms missing (additional @ [t]))
         else additional_loop ms missing additional))"

definition validate_recommendations ::
  "string \<Rightarrow> string list \<Rightarrow> pydict \<Rightarrow> pyerr + recommendation_validation" where
  "validate_recommendations domain recommendations data =
     (let validation_results = validate domain data
      in then_do (required_topics_loop (messages validation_results) []) (\<lambda>required_topics.
           let missing = missing_topics_loop required_topics recommendations []
           in then_do (additional_loop (messages validation_results) missing []) (\<lambda>additional.
                Inr \<lparr>rec_valid = (length missing = 0),
                     missing_topics = missing,
                     additional_recommendations = additional,
                     validation_messages = messages validation_results\<rparr>)))"

section \<open>Pattern-based extraction\<close>

subsection \<open>Regular expressions\<close>

text \<open>
  The patterns of \<open>StatusTextProcessor\<close> use literals, character classes, sequence,
  alternation, the greedy quantifiers \<open>?\<close>, \<open>*\<close>, \<open>+\<close> and \<open>{m,n}\<close>, the last three on
  single characters only, and one capturing group. They are searched with \<open>re.IGNORECASE\<close>.
\<close>

datatype cset =
    Digit
  | Space
  | OneOf string
  | Union cset cset

text \<open>
  Membership in a class, ignoring case: \<open>\d\<close> is the decimal digits and \<open>\s\<close> the whitespace
  of the code points up to U+00FF; a listed character matches in either case.
\<close>

fun in_cset :: "cset \<Rightarrow> char \<Rightarrow> bool" where
  "in_cset Digit c = is_digit c"
| "in_cset Space c = isspace c"
| "in_cset (OneOf s) c = (lower_char c \<in> set (map lower_char s))"
| "in_cset (Union a b) c = (in_cset a c \<or> in_cset b c)"

datatype rx =
    Lit string
  | In cset
  | Seq rx rx
  | Alt rx rx
  | Opt rx
  | Rep cset nat "nat option"
  | Group rx

text \<open>
  Backtracking matcher: all the ways in which the expression matches a prefix of the text,
  in the order in which the engine tries them (a greedy quantifier takes the longest run
  first, an alternation its left branch first). Each way gives the text left and the text
  captured by the group so far.
\<close>

fun rx_match :: "rx \<Rightarrow> string \<Rightarrow> string option \<Rightarrow> (string \<times> string option) list" where
  "rx_match (Lit l) s g =
     (if length l \<le> length s \<and> map lower_char (take (length l) s) = map lower_char l
      then [(drop (length l) s, g)] else [])"
| "rx_match (In cs) s g =
     (case s of [] \<Rightarrow> [] | c # r \<Rightarrow> if in_cset cs c then [(r, g)] else [])"
| "rx_match (Seq a b) s g = concat (map (\<lambda>(r, g'). rx_match b r g') (rx_match a s g))"
| "rx_match (Alt a b) s g = rx_match a s g @ rx_match b s g"
| "rx_match (Opt a) s g = rx_match a s g @ [(s, g)]"
| "rx_match (Rep cs m n) s g =
     (let run = length (takeWhile (in_cset cs) s);
          most = (case n of None \<Rightarrow> run | Some k \<Rightarrow> min k run)
      in map (\<lambda>k. (drop k s, g)) (rev [m..<Suc most]))"
| "rx_match (Group a) s g =
     map (\<lambda>(r, g'). (r, Some (take (length s - length r) s))) (rx_match a s g)"

text \<open>
  \<open>re.search\<close>: the first match at the leftmost position where there is one. The result is
  the capture of the match (\<open>match.group(1)\<close>), or \<open>None\<close> when nothing matches.
\<close>

fun rx_search :: "rx \<Rightarrow> string \<Rightarrow> string option option" where
  "rx_search r [] = (case rx_match r [] None of [] \<Rightarrow> None | (rest, g) # _ \<Rightarrow> Some g)"
| "rx_search r (c # cs) =
     (case rx_match r (c # cs) None of [] \<Rightarrow> rx_search r cs | (rest, g) # _ \<Rightarrow> Some g)"

text \<open>Sequence of several expressions.\<close>

fun seqs :: "rx list \<Rightarrow> rx" where
  "seqs [] = Lit ''''"
| "seqs [r] = r"
| "seqs (r # rs) = Seq r (seqs rs)"

subsection \<open>The patterns\<close>

text \<open>\<open>(?:\s*[:=-])?\<close>\<close>

definition opt_separator :: rx where
  "opt_separator = Opt (Seq (Rep Space 0 None) (In (OneOf '':=-'')))"

text \<open>\<open>(\d+(?:[.,]\d{1,2})?)\<close>\<close>

definition decimal_group :: rx where
  "decimal_group =
     Group (Seq (Rep Digit 1 None) (Opt (Seq (In (OneOf ''.,'')) (Rep Digit 1 (Some 2)))))"

text \<open>\<open>R\$ *([\d.,]+)\<close>\<close>

definition money_group :: rx where
  "money_group =
     seqs [Lit ''R$'', Rep (OneOf '' '') 0 None, Group (Rep (Union Digit (OneOf ''.,'')) 1 None)]"

text \<open>
  \<open>self.patterns\<close>, the regular expressions by key:
  \<^item> \<open>project_id\<close>: \<^verbatim>\<open>PROJ[ -]?(\d+)\<close>
  \<^item> \<open>completion_percentage\<close>:
    \<^verbatim>\<open>(\d{1,3}(?:[.,]\d{1,2})?)\s*%\s*(?:conclu[iI]do|completo|de progresso)\<close>, where \<^verbatim>\<open>I\<close> stands
    for the letter i with an acute accent
  \<^item> \<open>spi\<close>: \<^verbatim>\<open>SPI(?:\s*[:=-])?\s*(\d+(?:[.,]\d{1,2})?)\<close>, and \<open>cpi\<close> likewise
  \<^item> \<open>budget\<close>: \<^verbatim>\<open>or[Cc]amento(?:\s*total)?(?:\s*[:=-])?\s*R\$ *([\d.,]+)\<close>, where \<^verbatim>\<open>C\<close> stands
    for the letter c with a cedilla
  \<^item> \<open>actual_cost\<close>: \<^verbatim>\<open>custo\s*atual(?:\s*[:=-])?\s*R\$ *([\d.,]+)\<close>
  \<^item> \<open>delay_days\<close>: \<^verbatim>\<open>atraso(?:\s*de)?\s*(\d+)\s*dias?\<close>
\<close>

definition patterns :: "string \<rightharpoonup> rx" where
  "patterns =
     [''project_id'' \<mapsto>
        seqs [Lit ''PROJ'', Opt (In (OneOf '' -'')), Group (Rep Digit 1 None)],
      ''completion_percentage'' \<mapsto>
        seqs [Group (Seq (Rep Digit 1 (Some 3))
                       (Opt (Seq (In (OneOf ''.,'')) (Rep Digit 1 (Some 2))))),
              Rep Space 0 None, Lit ''%'', Rep Space 0 None,
              Alt (seqs [Lit ''conclu'', In (OneOf (''i'' @ [i_acute])), Lit ''do''])
                (Alt (Lit ''completo'') (Lit ''de progresso''))],
      ''spi'' \<mapsto> seqs [Lit ''SPI'', opt_separator, Rep Space 0 None, decimal_group],
      ''cpi'' \<mapsto> seqs [Lit ''CPI'', opt_separator, Rep Space 0 None, decimal_group],
      ''budget'' \<mapsto>
        seqs [Lit ''or'', In (OneOf ([c_cedil] @ ''c'')), Lit ''amento'',
              Opt (Seq (Rep Space 0 None) (Lit ''total'')), opt_separator, Rep Space 0 None,
              money_group],
      ''actual_cost'' \<mapsto>
        seqs [Lit ''custo'', Rep Space 0 None, Lit ''atual'', opt_separator, Rep Space 0 None,
              money_group],
      ''delay_days'' \<mapsto>
        seqs [Lit ''atraso'', Opt (Seq (Rep Space 0 None) (Lit ''de'')), Rep Space 0 None,
              Group (Rep Digit 1 None), Rep Space 0 None, Lit ''dia'', Opt (Lit ''s'')]]"

text \<open>The two keyword lists; they are searched as plain substrings, brackets included.\<close>

definition scope_change_keywords :: "string list" where
  "scope_change_keywords =
     [''mudan[c'' @ [c_cedil] @ '']a de escopo'',
      ''altera[c'' @ [c_cedil] @ ''][a'' @ [a_tilde] @ '']o de escopo'',
      ''escopo alterado'']"

definition risk_keywords :: "string list" where
  "risk_keywords =
     [''risco identificado'', ''novo risco'', ''amea[c'' @ [c_cedil] @ '']a'',
      ''problema potencial'']"

subsection \<open>The processor\<close>

text \<open>
  \<open>_extract_with_regex\<close>. A captured number is converted with \<open>float\<close>, outside any \<open>try\<close>;
  a monetary value first loses its dots and has its commas turned into dots.
\<close>

definition extract_with_regex :: "string \<Rightarrow> string \<Rightarrow> pyerr + pyval" where
  "extract_with_regex text pattern_key =
     (case patterns pattern_key of
        None \<Rightarrow> Inl (KeyError ([apostrophe] @ pattern_key @ [apostrophe]))
      | Some r \<Rightarrow>
          (case rx_search r text of
             None \<Rightarrow> Inr PNone
           | Some group1 \<Rightarrow>
               if pattern_key \<in> set [''budget'', ''actual_cost''] then
                 (case group1 of
                    None \<Rightarrow>
                      Inl (AttributeError (''NoneType'' @ [apostrophe]
                             @ '' object has no attribute '' @ [apostrophe] @ ''replace''
                             @ [apostrophe]))
                  | Some s \<Rightarrow>
                      (let value_str = replace '','' ''.'' (replace ''.'' '''' s)
                       in then_do (py_float value_str) (\<lambda>f. Inr (PFloat f))))
               else if pattern_key \<in> set [''completion_percentage'', ''spi'', ''cpi'', ''delay_days'']
               then
                 (case group1 of
                    None \<Rightarrow>
                      Inl (AttributeError (''NoneType'' @ [apostrophe]
                             @ '' object has no attribute '' @ [apostrophe] @ ''replace''
                             @ [apostrophe]))
                  | Some s \<Rightarrow> then_do (py_float (replace '','' ''.'' s)) (\<lambda>f. Inr (PFloat f)))
               else Inr (case group1 of None \<Rightarrow> PNone | Some s \<Rightarrow> PStr s)))"

text \<open>
  The metrics of \<open>process_status_file\<close>: the dictionary literal, evaluated key by key, and
  the comprehension that drops the keys whose value is \<open>None\<close>.
\<close>

definition extract_metrics :: "string \<Rightarrow> pyerr + (string \<times> pyval) list" where
  "extract_metrics text =
     then_do (extract_with_regex text ''completion_percentage'') (\<lambda>completion_percentage.
     then_do (extract_with_regex text ''spi'') (\<lambda>spi.
     then_do (extract_with_regex text ''cpi'') (\<lambda>cpi.
     then_do (extract_with_regex text ''budget'') (\<lambda>budget.
     then_do (extract_with_regex text ''actual_cost'') (\<lambda>actual_cost.
     then_do (extract_with_regex text ''delay_days'') (\<lambda>delay_days.
       let metrics =
         [(''completion_percentage'', completion_percentage),
          (''spi'', spi),
          (''cpi'', cpi),
          (''budget'', budget),
          (''actual_cost'', actual_cost),
          (''delay_days'', delay_days),
          (''scope_change_detected'',
             PBool (list_ex (\<lambda>keyword. str_in keyword (lower text)) scope_change_keywords)),
          (''risk_detected'',
             PBool (list_ex (\<lambda>keyword. str_in keyword (lower text)) risk_keywords))]
       in Inr (filter (\<lambda>(k, v). v \<noteq> PNone) metrics)))))))"

text \<open>
  What opening and reading the file does: the file is missing, reading fails with some
  other exception, or the text is read.
\<close>

datatype read_result = FileNotFound | ReadFailed string | Content string

text \<open>
  \<open>_extract_entities\<close> on the entities of the spaCy document, each a text with its label.
\<close>

definition extract_entities :: "(string \<times> string) list \<Rightarrow> (string \<times> pyval) list" where
  "extract_entities ents =
     [(''dates'', PList (map (PStr \<circ> fst) (filter (\<lambda>e. snd e = ''DATE'') ents))),
      (''orgs'', PList (map (PStr \<circ> fst) (filter (\<lambda>e. snd e = ''ORG'') ents))),
      (''persons'', PList (map (PStr \<circ> fst) (filter (\<lambda>e. snd e = ''PERSON'') ents))),
      (''locations'',
         PList (map (PStr \<circ> fst) (filter (\<lambda>e. snd e \<in> set [''LOC'', ''GPE'']) ents)))]"

text \<open>
  \<open>process_status_file\<close>. The file system and the spaCy pipeline are outside the
  repository and are parameters: \<open>read_file\<close> gives the outcome of reading a path and \<open>nlp\<close>
  the entities of a text. The result is the returned dictionary, in order.
\<close>

definition process_status_file ::
  "(string \<Rightarrow> read_result) \<Rightarrow> (string \<Rightarrow> (string \<times> string) list) \<Rightarrow> string
     \<Rightarrow> pyerr + (string \<times> pyval) list" where
  "process_status_file read_file nlp file_path =
     (case read_file file_path of
        FileNotFound \<Rightarrow>
          Inr [(''error'', PStr (''Arquivo n'' @ [a_tilde] @ ''o encontrado: '' @ file_path)),
               (''status'', PStr ''error'')]
      | ReadFailed e \<Rightarrow>
          Inr [(''error'', PStr (''Erro ao ler arquivo '' @ file_path @ '': '' @ e)),
               (''status'', PStr ''error'')]
      | Content text \<Rightarrow>
          (let doc = nlp text;
               dates = map fst (filter (\<lambda>e. snd e = ''DATE'') doc);
               persons = map fst (filter (\<lambda>e. snd e = ''PERSON'') doc)
           in then_do (extract_with_regex text ''project_id'') (\<lambda>project_id.
              let extracted_info =
                [(''file_path'', PStr file_path),
                 (''project_id'', project_id),
                 (''report_date'', (case dates of [] \<Rightarrow> PNone | d # _ \<Rightarrow> PStr d)),
                 (''manager'', (case persons of [] \<Rightarrow> PNone | p # _ \<Rightarrow> PStr p)),
                 (''raw_text'', PStr text),
                 (''entities'', PDict (extract_entities doc))]
              in then_do (extract_metrics text) (\<lambda>metrics.
                   Inr [(''project_info'', PDict extracted_info),
                        (''metrics'', PDict metrics),
                        (''status'', PStr ''success'')]))))"

section \<open>Verified properties\<close>

subsection \<open>Auxiliary facts\<close>

lemma then_do_Inr [simp]: "then_do (Inr x) f = f x"
  by (simp add: then_do_def)

lemma then_do_Inl [simp]: "then_do (Inl e) f = Inl e"
  by (simp add: then_do_def)

lemma then_do_eq_Inr: "then_do m f = Inr y \<longleftrightarrow> (\<exists>x. m = Inr x \<and> f x = Inr y)"
  by (cases m) simp_all

subsection \<open>Label-based extraction\<close>

lemma split_acc_nonempty: "split_acc sep acc s \<noteq> []"
  by (induction sep acc s rule: split_acc.induct) auto

lemma split_acc_length:
  "sep \<noteq> [] \<Longrightarrow> str_in sep s \<Longrightarrow> 2 \<le> length (split_acc sep acc s)"
proof (induction s arbitrary: acc)
  case Nil
  then show ?case by simp
next
  case (Cons c cs)
  show ?case
  proof (cases "prefix sep (c # cs)")
    case True
    then show ?thesis
      using Cons.prems(1) split_acc_nonempty [of sep "[]" "drop (length sep) (c # cs)"]
      by (cases "split_acc sep [] (drop (length sep) (c # cs))") auto
  next
    case False
    then show ?thesis using Cons by simp
  qed
qed

lemma after_label_total:
  "label \<noteq> [] \<Longrightarrow> str_in label line \<Longrightarrow> \<exists>raw. after_label label line = Inr raw"
  using split_acc_length [of label line "[]"]
  by (simp add: after_label_def index_def split_def)

lemma text_field_total:
  "label \<noteq> [] \<Longrightarrow> str_in label line \<Longrightarrow> \<exists>st'. text_field st line label key = Inr st'"
  using after_label_total [of label line] by (auto simp: text_field_def)

lemma schedule_line_total: "\<exists>st'. schedule_line st line = Inr st'"
  unfolding schedule_line_def
  by (auto intro!: text_field_total)

lemma cost_line_total: "\<exists>st'. cost_line st line = Inr st'"
  by (simp add: cost_line_def)

lemma for_each_total:
  "(\<And>s x. \<exists>s'. body s x = Inr s') \<Longrightarrow> \<exists>s'. for_each body s xs = Inr s'"
proof (induction xs arbitrary: s)
  case Nil
  then show ?case by simp
next
  case (Cons x xs)
  from Cons.prems obtain s1 where "body s x = Inr s1" by blast
  then show ?case using Cons.IH [OF Cons.prems, of s1] by simp
qed

lemma extract_schedule_status_total: "\<exists>st. extract_schedule_status content = Inr st"
proof -
  obtain st where "for_each schedule_line Map.empty (split [CHR 0x0A] content) = Inr st"
    using for_each_total [of schedule_line] schedule_line_total by blast
  then show ?thesis
    by (simp add: extract_schedule_status_def Let_def split: prod.splits)
qed

lemma extract_cost_status_total: "\<exists>st. extract_cost_status content = Inr st"
proof -
  obtain st where "for_each cost_line Map.empty (split [CHR 0x0A] content) = Inr st"
    using for_each_total [of cost_line] cost_line_total by blast
  then show ?thesis
    by (simp add: extract_cost_status_def Let_def split: prod.splits)
qed

lemma numeric_field_at:
  "numeric_field st line label key conv k =
     (if k = key then (case parse_after label conv line of Inl e \<Rightarrow> st k | Inr v \<Rightarrow> Some v)
      else st k)"
  by (auto simp: numeric_field_def parse_after_def try_pass_def then_do_def split: sum.splits)

lemma text_field_at:
  "text_field st line label key = Inr st' \<Longrightarrow>
     st' k = (if k = key then st' key else st k) \<and> (\<exists>v. st' key = Some (PStr v))"
  by (auto simp: text_field_def then_do_def split: sum.splits)

lemma text_field_other:
  "text_field st line label key = Inr st' \<Longrightarrow> k \<noteq> key \<Longrightarrow> st' k = st k"
  using text_field_at by metis

lemma schedule_line_key:
  assumes "(label, key, conv) \<in> set schedule_numeric_fields"
    and "schedule_line st line = Inr st'"
  shows "st' key = st key
     \<or> (str_in label line \<and> (\<exists>v. parse_after label conv line = Inr v \<and> st' key = Some v))"
  using assms unfolding schedule_numeric_fields_def schedule_line_def
  by (auto simp: numeric_field_at text_field_other split: if_splits sum.splits)

lemma cost_line_key:
  assumes "(label, key, conv) \<in> set cost_numeric_fields"
    and "cost_line st line = Inr st'"
  shows "st' key = st key
     \<or> (str_in label line \<and> (\<exists>v. parse_after label conv line = Inr v \<and> st' key = Some v))"
  using assms unfolding cost_numeric_fields_def cost_line_def
  by (auto simp: numeric_field_at split: if_splits sum.splits)

lemma for_each_key:
  assumes step: "\<And>st line st'. body st line = Inr st' \<Longrightarrow>
      st' key = st key
      \<or> (str_in label line \<and> (\<exists>v. parse_after label conv line = Inr v \<and> st' key = Some v))"
    and run: "for_each body st lines = Inr st'"
  shows "st' key = st key
     \<or> (\<exists>line \<in> set lines. str_in label line
           \<and> (\<exists>v. parse_after label conv line = Inr v \<and> st' key = Some v))"
  using run
proof (induction lines arbitrary: st)
  case Nil
  then show ?case by simp
next
  case (Cons x xs)
  from Cons.prems obtain s1 where s1: "body st x = Inr s1" and rest: "for_each body s1 xs = Inr st'"
    by (cases "body st x") auto
  from Cons.IH [OF rest] step [OF s1] show ?case
    by auto
qed

lemma schedule_keys_not_tasks:
  "(label, key, conv) \<in> set schedule_numeric_fields \<Longrightarrow>
     key \<noteq> ''tarefas_criticas'' \<and> key \<noteq> ''tarefas_atrasadas''"
  by (auto simp: schedule_numeric_fields_def)

lemma cost_keys_not_categories:
  "(label, key, conv) \<in> set cost_numeric_fields \<Longrightarrow> key \<noteq> ''categorias_custos''"
  by (auto simp: cost_numeric_fields_def)

lemma extract_schedule_status_key:
  assumes f: "(label, key, conv) \<in> set schedule_numeric_fields"
    and ex: "extract_schedule_status content = Inr st" and v: "st key = Some v"
  shows "\<exists>line \<in> set (split [CHR 0x0A] content).
           str_in label line \<and> parse_after label conv line = Inr v"
proof -
  from ex obtain s where s: "for_each schedule_line Map.empty (split [CHR 0x0A] content) = Inr s"
    and st: "st key = s key"
    using schedule_keys_not_tasks [OF f]
    by (cases "for_each schedule_line Map.empty (split [CHR 0x0A] content)")
       (auto simp: extract_schedule_status_def Let_def split: prod.splits)
  have "s key = Map.empty key
     \<or> (\<exists>line \<in> set (split [CHR 0x0A] content). str_in label line
           \<and> (\<exists>v. parse_after label conv line = Inr v \<and> s key = Some v))"
    by (rule for_each_key [where body = schedule_line, OF _ s]) (rule schedule_line_key [OF f])
  with st v show ?thesis by auto
qed

lemma extract_cost_status_key:
  assumes f: "(label, key, conv) \<in> set cost_numeric_fields"
    and ex: "extract_cost_status content = Inr st" and v: "st key = Some v"
  shows "\<exists>line \<in> set (split [CHR 0x0A] content).
           str_in label line \<and> parse_after label conv line = Inr v"
proof -
  from ex obtain s where s: "for_each cost_line Map.empty (split [CHR 0x0A] content) = Inr s"
    and st: "st key = s key"
    using cost_keys_not_categories [OF f]
    by (cases "for_each cost_line Map.empty (split [CHR 0x0A] content)")
       (auto simp: extract_cost_status_def Let_def split: prod.splits)
  have "s key = Map.empty key
     \<or> (\<exists>line \<in> set (split [CHR 0x0A] content). str_in label line
           \<and> (\<exists>v. parse_after label conv line = Inr v \<and> s key = Some v))"
    by (rule for_each_key [where body = cost_line, OF _ s]) (rule cost_line_key [OF f])
  with st v show ?thesis by auto
qed

text \<open>
  Claim C7. For every input text both label-based extractions return a field mapping; no
  exception leaves them. For every numeric field, a line on which the conversion of the text
  after the label raises leaves the field as it was, and a field that is present in the
  result holds the value converted from a line that contains its label. So a field whose
  lines all fail to parse is absent: there is no placeholder and no error.
\<close>

theorem label_extraction_total:
  "(\<exists>st. extract_schedule_status content = Inr st)
   \<and> (\<exists>st. extract_cost_status content = Inr st)
   \<and> (\<forall>(label, key, conv) \<in> set schedule_numeric_fields.
         (\<forall>st line e. parse_after label conv line = Inl e \<longrightarrow>
            (\<exists>st'. schedule_line st line = Inr st' \<and> st' key = st key))
       \<and> (\<forall>st v. extract_schedule_status content = Inr st \<and> st key = Some v \<longrightarrow>
            (\<exists>line \<in> set (split [CHR 0x0A] content).
               str_in label line \<and> parse_after label conv line = Inr v)))
   \<and> (\<forall>(label, key, conv) \<in> set cost_numeric_fields.
         (\<forall>st line e. parse_after label conv line = Inl e \<longrightarrow>
            (\<exists>st'. cost_line st line = Inr st' \<and> st' key = st key))
       \<and> (\<forall>st v. extract_cost_status content = Inr st \<and> st key = Some v \<longrightarrow>
            (\<exists>line \<in> set (split [CHR 0x0A] content).
               str_in label line \<and> parse_after label conv line = Inr v)))"
proof -
  have s1: "\<exists>st'. schedule_line st line = Inr st' \<and> st' key = st key"
    if "(label, key, conv) \<in> set schedule_numeric_fields" "parse_after label conv line = Inl e"
    for label key conv st line e
  proof -
    obtain st' where st': "schedule_line st line = Inr st'"
      using schedule_line_total [of st line] by blast
    from schedule_line_key [OF that(1) st'] that(2) have "st' key = st key" by auto
    with st' show ?thesis by blast
  qed
  have c1: "\<exists>st'. cost_line st line = Inr st' \<and> st' key = st key"
    if "(label, key, conv) \<in> set cost_numeric_fields" "parse_after label conv line = Inl e"
    for label key conv st line e
  proof -
    obtain st' where st': "cost_line st line = Inr st'"
      using cost_line_total [of st line] by blast
    from cost_line_key [OF that(1) st'] that(2) have "st' key = st key" by auto
    with st' show ?thesis by blast
  qed
  show ?thesis
    using extract_schedule_status_total extract_cost_status_total s1 c1
      extract_schedule_status_key extract_cost_status_key
    by (intro conjI ballI) (auto simp del: split_paired_All split_paired_Ex)
qed

text \<open>
  The theorem at a report whose completion percentage is not a number: the field is absent.
\<close>

theorem label_extraction_total_witness:
  "\<exists>st. extract_schedule_status
          (''Status atual: Atrasado'' @ [CHR 0x0A] @ ''Percentual de conclus'' @ [a_tilde]
             @ ''o: abc%'') = Inr st
        \<and> st ''percentual_conclusao'' = None"
proof -
  let ?L = "''Percentual de conclus'' @ [a_tilde] @ ''o:''"
  let ?C = "''Status atual: Atrasado'' @ [CHR 0x0A] @ ''Percentual de conclus'' @ [a_tilde]
             @ ''o: abc%''"
  have f: "(?L, ''percentual_conclusao'', percent_value) \<in> set schedule_numeric_fields"
    by (simp add: schedule_numeric_fields_def)
  have lines: "split [CHR 0x0A] ?C
                 = [''Status atual: Atrasado'', ''Percentual de conclus'' @ [a_tilde] @ ''o: abc%'']"
    by code_simp
  have p1: "\<not> str_in ?L ''Status atual: Atrasado''"
    by code_simp
  have p2: "isl (parse_after ?L percent_value (''Percentual de conclus'' @ [a_tilde] @ ''o: abc%''))"
    by code_simp
  from label_extraction_total [of ?C] obtain st where st: "extract_schedule_status ?C = Inr st"
    by blast
  have key: "\<forall>st v. extract_schedule_status ?C = Inr st \<and> st ''percentual_conclusao'' = Some v \<longrightarrow>
            (\<exists>line \<in> set (split [CHR 0x0A] ?C).
               str_in ?L line \<and> parse_after ?L percent_value line = Inr v)"
    using label_extraction_total [of ?C] f by fast
  have "st ''percentual_conclusao'' = None"
  proof (rule ccontr)
    assume "st ''percentual_conclusao'' \<noteq> None"
    then obtain v where "st ''percentual_conclusao'' = Some v" by auto
    with key st obtain line where "line \<in> set (split [CHR 0x0A] ?C)" "str_in ?L line"
      "parse_after ?L percent_value line = Inr v"
      by blast
    with lines p1 p2 show False
      by auto
  qed
  with st show ?thesis by blast
qed

subsection \<open>Metric derivation\<close>

lemma py_gt_float_zero [simp]: "py_gt (PFloat f) (NInt 0) = Inr (fl_lt (Fin 0) f)"
  by (simp add: py_gt_def py_compare_def fl_gt_def)





















lemma py_truediv_not_None: "py_truediv a b = Inr q \<Longrightarrow> q \<noteq> PNone"
  by (auto simp: py_truediv_def then_do_def
      split: option.splits num.splits if_splits sum.splits)

lemma derive_spi_again:
  assumes "derive_spi st = Inr (spi, st')"
  shows "derive_spi st' = Inr (spi, st')"
proof (cases "dict_get st ''spi'' PNone = PNone \<and> st ''valor_agregado'' \<noteq> None
                \<and> st ''valor_planejado'' \<noteq> None")
  case False
  with assms have "spi = dict_get st ''spi'' PNone \<and> st' = st"
    by (auto simp: derive_spi_def Let_def)
  with assms show ?thesis by simp
next
  case True
  show ?thesis
  proof (cases "py_gt (dict_get st ''valor_planejado'' (PInt 0)) (NInt 0)")
    case (Inl e)
    with True assms show ?thesis by (simp add: derive_spi_def Let_def)
  next
    case (Inr positive)
    show ?thesis
    proof (cases positive)
      case False
      with True Inr assms have "spi = dict_get st ''spi'' PNone \<and> st' = st"
        by (auto simp: derive_spi_def Let_def)
      with assms show ?thesis by simp
    next
      case pos: True
      with True Inr assms obtain q where
        q: "py_truediv (dict_get st ''valor_agregado'' (PInt 0))
              (dict_get st ''valor_planejado'' (PInt 0)) = Inr q"
        and r: "spi = q" "st' = st(''spi'' \<mapsto> q)"
        by (auto simp: derive_spi_def Let_def then_do_def split: sum.splits)
      from py_truediv_not_None [OF q] r show ?thesis
        by (simp add: derive_spi_def dict_get_def)
    qed
  qed
qed

lemma derive_cpi_again:
  assumes "derive_cpi st = Inr (cpi, st')"
  shows "derive_cpi st' = Inr (cpi, st')"
proof (cases "dict_get st ''cpi'' PNone = PNone \<and> st ''valor_agregado'' \<noteq> None
                \<and> st ''custo_real'' \<noteq> None")
  case False
  with assms have "cpi = dict_get st ''cpi'' PNone \<and> st' = st"
    by (auto simp: derive_cpi_def Let_def)
  with assms show ?thesis by simp
next
  case True
  show ?thesis
  proof (cases "py_gt (dict_get st ''custo_real'' (PInt 0)) (NInt 0)")
    case (Inl e)
    with True assms show ?thesis by (simp add: derive_cpi_def Let_def)
  next
    case (Inr positive)
    show ?thesis
    proof (cases positive)
      case False
      with True Inr assms have "cpi = dict_get st ''cpi'' PNone \<and> st' = st"
        by (auto simp: derive_cpi_def Let_def)
      with assms show ?thesis by simp
    next
      case pos: True
      with True Inr assms obtain q where
        q: "py_truediv (dict_get st ''valor_agregado'' (PInt 0))
              (dict_get st ''custo_real'' (PInt 0)) = Inr q"
        and r: "cpi = q" "st' = st(''cpi'' \<mapsto> q)"
        by (auto simp: derive_cpi_def Let_def then_do_def split: sum.splits)
      from py_truediv_not_None [OF q] r show ?thesis
        by (simp add: derive_cpi_def dict_get_def)
    qed
  qed
qed

text \<open>
  Claim C6. Running the derivation on its own result gives that result again, for the SPI
  and for the CPI and for every record: a stored index is never \<open>None\<close>, so the second run
  finds it and writes nothing. (When the first run raises there is no result to run on, and
  both sides are that exception.)
\<close>

theorem derivation_idempotent:
  "then_do (derive_spi schedule_status) (\<lambda>(spi, enriched). derive_spi enriched)
     = derive_spi schedule_status
   \<and> then_do (derive_cpi cost_status) (\<lambda>(cpi, enriched). derive_cpi enriched)
     = derive_cpi cost_status"
proof -
  have a: "then_do (derive_spi schedule_status) (\<lambda>(spi, enriched). derive_spi enriched)
     = derive_spi schedule_status"
    by (cases "derive_spi schedule_status") (auto simp: derive_spi_again)
  have b: "then_do (derive_cpi cost_status) (\<lambda>(cpi, enriched). derive_cpi enriched)
     = derive_cpi cost_status"
    by (cases "derive_cpi cost_status") (auto simp: derive_cpi_again)
  show ?thesis using a b by simp
qed

subsection \<open>Health bands\<close>

lemma py_ge_Fin [simp]: "py_ge (PFloat (Fin x)) (NFloat (Fin t)) = Inr (t \<le> x)"
  by (auto simp: py_ge_def py_compare_def fl_ge_def fl_eq_def)

lemma cost_status_Fin:
  "health_status (evaluate_cost_health (PFloat (Fin x))) =
     Inr (if 1.1 \<le> x then ''excellent'' else if 1.0 \<le> x then ''good''
          else if 0.9 \<le> x then ''warning'' else if 0.8 \<le> x then ''critical'' else ''severe'')"
  by (simp add: evaluate_cost_health_def health_status_def)

lemma schedule_status_Fin:
  "health_status (evaluate_schedule_health (PFloat (Fin x))) =
     Inr (if 1.05 \<le> x then ''excellent'' else if 0.95 \<le> x then ''good''
          else if 0.85 \<le> x then ''warning'' else if 0.7 \<le> x then ''critical'' else ''severe'')"
  by (simp add: evaluate_schedule_health_def health_status_def)

text \<open>
  Claim C1. An absent index (\<open>None\<close>) is classified \<open>unknown\<close> in both domains. For every
  real index value the cost classifier answers \<open>excellent\<close> from 1.10 on, \<open>good\<close> on
  [1.00, 1.10), \<open>warning\<close> on [0.90, 1.00), \<open>critical\<close> on [0.80, 0.90) and \<open>severe\<close> below
  0.80; the schedule classifier answers \<open>excellent\<close> from 1.05 on, \<open>good\<close> on [0.95, 1.05),
  \<open>warning\<close> on [0.85, 0.95), \<open>critical\<close> on [0.70, 0.85) and \<open>severe\<close> below 0.70. The
  lower bound of each band is inclusive.
\<close>

theorem health_banding:
  fixes x :: real
  shows "health_status (evaluate_cost_health PNone) = Inr ''unknown''
    \<and> (1.10 \<le> x \<longrightarrow> health_status (evaluate_cost_health (PFloat (Fin x))) = Inr ''excellent'')
    \<and> (1.00 \<le> x \<and> x < 1.10 \<longrightarrow>
          health_status (evaluate_cost_health (PFloat (Fin x))) = Inr ''good'')
    \<and> (0.90 \<le> x \<and> x < 1.00 \<longrightarrow>
          health_status (evaluate_cost_health (PFloat (Fin x))) = Inr ''warning'')
    \<and> (0.80 \<le> x \<and> x < 0.90 \<longrightarrow>
          health_status (evaluate_cost_health (PFloat (Fin x))) = Inr ''critical'')
    \<and> (x < 0.80 \<longrightarrow> health_status (evaluate_cost_health (PFloat (Fin x))) = Inr ''severe'')
    \<and> health_status (evaluate_schedule_health PNone) = Inr ''unknown''
    \<and> (1.05 \<le> x \<longrightarrow>
          health_status (evaluate_schedule_health (PFloat (Fin x))) = Inr ''excellent'')
    \<and> (0.95 \<le> x \<and> x < 1.05 \<longrightarrow>
          health_status (evaluate_schedule_health (PFloat (Fin x))) = Inr ''good'')
    \<and> (0.85 \<le> x \<and> x < 0.95 \<longrightarrow>
          health_status (evaluate_schedule_health (PFloat (Fin x))) = Inr ''warning'')
    \<and> (0.70 \<le> x \<and> x < 0.85 \<longrightarrow>
          health_status (evaluate_schedule_health (PFloat (Fin x))) = Inr ''critical'')
    \<and> (x < 0.70 \<longrightarrow>
          health_status (evaluate_schedule_health (PFloat (Fin x))) = Inr ''severe'')"
proof -
  have u1: "health_status (evaluate_cost_health PNone) = Inr ''unknown''"
    by (simp add: evaluate_cost_health_def health_status_def)
  have u2: "health_status (evaluate_schedule_health PNone) = Inr ''unknown''"
    by (simp add: evaluate_schedule_health_def health_status_def)
  show ?thesis
    unfolding cost_status_Fin schedule_status_Fin using u1 u2 by simp
qed

text \<open>The boundary values named by the claim, obtained from the theorem.\<close>

theorem health_banding_witness:
  "health_status (evaluate_cost_health (PFloat (Fin 1.10))) = Inr ''excellent''
   \<and> health_status (evaluate_cost_health (PFloat (Fin 1.099999))) = Inr ''good''
   \<and> health_status (evaluate_schedule_health (PFloat (Fin 0.70))) = Inr ''critical''
   \<and> health_status (evaluate_schedule_health (PFloat (Fin 0.699999))) = Inr ''severe''
   \<and> health_status (evaluate_cost_health PNone) = Inr ''unknown''
   \<and> health_status (evaluate_schedule_health PNone) = Inr ''unknown''"
  using health_banding [of "1.10"] health_banding [of "1.099999"]
    health_banding [of "0.70"] health_banding [of "0.699999"]
  by simp

subsection \<open>Guard rails: validity and messages\<close>

lemma rules_known: "rules domain \<noteq> None \<longleftrightarrow> domain \<in> known_domains"
  by (simp add: rules_def known_domains_def)

lemma rules_unknown: "domain \<notin> known_domains \<Longrightarrow> rules domain = None"
  using rules_known by blast

lemma foldl_validate_rule_valid:
  "snd (foldl (validate_rule data) (ms, v) rs) \<longleftrightarrow>
     v \<and> (\<forall>r \<in> set rs. condition r data = Inr True \<and> action r = ''require''
            \<longrightarrow> truthy (check_requirement_met r data))"
proof (induction rs arbitrary: ms v)
  case Nil
  then show ?case by simp
next
  case (Cons r rs)
  obtain ms' v' where step: "validate_rule data (ms, v) r = (ms', v')"
    by (cases "validate_rule data (ms, v) r")
  have v': "v' \<longleftrightarrow> v \<and> (condition r data = Inr True \<and> action r = ''require''
              \<longrightarrow> truthy (check_requirement_met r data))"
    using step by (auto simp: validate_rule_def Let_def split: sum.splits if_splits)
  show ?case
    using Cons.IH [of ms' v'] step v' by auto
qed

lemma foldl_validate_rule_messages:
  "fst (foldl (validate_rule data) (ms, v) rs) = ms @ concat (map (rule_messages data) rs)"
proof (induction rs arbitrary: ms v)
  case Nil
  then show ?case by simp
next
  case (Cons r rs)
  obtain ms' v' where step: "validate_rule data (ms, v) r = (ms', v')"
    by (cases "validate_rule data (ms, v) r")
  have ms': "ms' = ms @ rule_messages data r"
    using step by (auto simp: validate_rule_def rule_messages_def Let_def split: sum.splits if_splits)
  show ?case
    using Cons.IH [of ms' v'] step ms' by simp
qed

lemma truthy_check_requirement_met:
  "truthy (check_requirement_met r data) \<longleftrightarrow>
     (\<exists>v. data (''requirement_'' @ rule_id r @ ''_met'') = Some v \<and> truthy v)"
  by (auto simp: check_requirement_met_def dict_get_def split: option.splits)

lemma validate_known:
  "rules domain = Some rs \<Longrightarrow>
     validate domain data = \<lparr>valid = snd (foldl (validate_rule data) ([], True) rs),
                              messages = fst (foldl (validate_rule data) ([], True) rs)\<rparr>"
  by (simp add: validate_def Let_def)

text \<open>
  Claim C3. For every known domain and every data mapping, \<open>validate\<close> answers \<open>valid\<close>
  exactly when every rule of the domain's catalog whose condition holds and whose action is
  \<open>require\<close> has its flag \<open>requirement_<rule_id>_met\<close> present in the data with a true
  value. Rules of action \<open>notify\<close> or \<open>recommend\<close>, rules whose condition is false and rules
  whose condition raises do not enter the equivalence, so they never make the result invalid.
\<close>

theorem validate_valid_iff:
  assumes "domain \<in> known_domains"
  shows "\<exists>rs. rules domain = Some rs \<and>
    (valid (validate domain data) \<longleftrightarrow>
       (\<forall>r \<in> set rs. condition r data = Inr True \<and> action r = ''require'' \<longrightarrow>
          (\<exists>v. data (''requirement_'' @ rule_id r @ ''_met'') = Some v \<and> truthy v)))"
proof -
  from assms obtain rs where rs: "rules domain = Some rs"
    using rules_known by blast
  have "valid (validate domain data) \<longleftrightarrow>
       (\<forall>r \<in> set rs. condition r data = Inr True \<and> action r = ''require'' \<longrightarrow>
          truthy (check_requirement_met r data))"
    using foldl_validate_rule_valid [of data "[]" True rs] by (simp add: validate_known [OF rs])
  then show ?thesis
    using rs by (simp add: truthy_check_requirement_met)
qed

text \<open>
  Claim C8. For every domain string outside the four known domains and every data mapping,
  \<open>validate\<close> returns \<open>valid = False\<close> and the single message \<open>Dominio invalido: <domain>\<close>.
  That message is a bare string, whereas no message returned for a known domain is one.
\<close>

theorem validate_unknown_domain:
  assumes "domain \<notin> known_domains"
  shows "validate domain data =
           \<lparr>valid = False,
            messages = [Bare (''Dom'' @ [i_acute] @ ''nio inv'' @ [a_acute] @ ''lido: '' @ domain)]\<rparr>
         \<and> (\<forall>k \<in> known_domains. \<forall>m \<in> set (messages (validate k data)). \<forall>s. m \<noteq> Bare s)"
proof -
  have a: "validate domain data =
           \<lparr>valid = False,
            messages = [Bare (''Dom'' @ [i_acute] @ ''nio inv'' @ [a_acute] @ ''lido: '' @ domain)]\<rparr>"
    using rules_unknown [OF assms] by (simp add: validate_def)
  have b: "m \<noteq> Bare s" if k: "k \<in> known_domains" and m: "m \<in> set (messages (validate k data))" for k m s
  proof -
    from k obtain rs where rs: "rules k = Some rs" using rules_known by blast
    have "messages (validate k data) = concat (map (rule_messages data) rs)"
      using foldl_validate_rule_messages [of data "[]" True rs] by (simp add: validate_known [OF rs])
    with m obtain r where "m \<in> set (rule_messages data r)" by auto
    then show ?thesis
      by (auto simp: rule_messages_def split: sum.splits if_splits)
  qed
  show ?thesis using a b by blast
qed

lemma catalog_distinct_ids:
  "rules domain = Some rs \<Longrightarrow> distinct (map rule_id rs)"
  by (auto simp: rules_def load_schedule_rules_def load_cost_rules_def load_scope_rules_def
      load_risk_rules_def split: if_splits)

lemma rule_messages_id: "m \<in> set (rule_messages data r) \<Longrightarrow> msg_rule_id m = rule_id r"
  by (auto simp: rule_messages_def split: sum.splits if_splits)

lemma filter_rule_messages_same:
  "filter (\<lambda>m. msg_rule_id m = rule_id r) (rule_messages data r) = rule_messages data r"
  by (auto simp: rule_messages_def split: sum.splits)

lemma filter_rule_messages_other:
  "rule_id r' \<noteq> rule_id r \<Longrightarrow> filter (\<lambda>m. msg_rule_id m = rule_id r) (rule_messages data r') = []"
  by (auto simp: rule_messages_def split: sum.splits)

lemma filter_messages_of_rule:
  "distinct (map rule_id rs) \<Longrightarrow> r \<in> set rs \<Longrightarrow>
     filter (\<lambda>m. msg_rule_id m = rule_id r) (concat (map (rule_messages data) rs))
       = rule_messages data r"
proof (induction rs)
  case Nil
  then show ?case by simp
next
  case (Cons a rs)
  show ?case
  proof (cases "a = r")
    case True
    have "\<forall>r' \<in> set rs. rule_id r' \<noteq> rule_id r"
      using Cons.prems(1) True by (metis distinct.simps(2) image_eqI list.simps(9) set_map)
    then have "filter (\<lambda>m. msg_rule_id m = rule_id r) (concat (map (rule_messages data) rs)) = []"
      by (induction rs) (auto simp: filter_rule_messages_other)
    then show ?thesis
      using True by (simp add: filter_rule_messages_same)
  next
    case False
    then have r: "r \<in> set rs" using Cons.prems(2) by simp
    have "rule_id a \<noteq> rule_id r"
      using Cons.prems(1) r by auto
    then show ?thesis
      using Cons.IH r Cons.prems(1) by (simp add: filter_rule_messages_other)
  qed
qed

text \<open>
  Claim C4. For every known domain and every data mapping, \<open>validate\<close> returns, and its
  messages are, in catalog order, what each rule contributes by itself. A rule whose condition
  raises has exactly one message, of action \<open>error\<close> and with the exception text after
  \<open>Erro ao aplicar regra: \<close>; every rule whose condition holds has exactly its own message,
  whatever the other rules do.
\<close>

theorem validate_partial_failure:
  assumes "domain \<in> known_domains"
  shows "\<exists>rs. rules domain = Some rs
     \<and> messages (validate domain data) = concat (map (rule_messages data) rs)
     \<and> (\<forall>r \<in> set rs. \<forall>e. condition r data = Inl e \<longrightarrow>
           filter (\<lambda>m. msg_rule_id m = rule_id r) (messages (validate domain data))
             = [Msg (rule_id r) (rule_name r) (''Erro ao aplicar regra: '' @ str_of_err e)
                  ''error''])
     \<and> (\<forall>r \<in> set rs. condition r data = Inr True \<longrightarrow>
           filter (\<lambda>m. msg_rule_id m = rule_id r) (messages (validate domain data))
             = [Msg (rule_id r) (rule_name r) (message r) (action r)])"
proof -
  from assms obtain rs where rs: "rules domain = Some rs"
    using rules_known by blast
  have msgs: "messages (validate domain data) = concat (map (rule_messages data) rs)"
    using foldl_validate_rule_messages [of data "[]" True rs] by (simp add: validate_known [OF rs])
  have own: "filter (\<lambda>m. msg_rule_id m = rule_id r) (messages (validate domain data))
               = rule_messages data r" if "r \<in> set rs" for r
    unfolding msgs using filter_messages_of_rule [OF catalog_distinct_ids [OF rs] that] .
  show ?thesis
    using rs msgs own by (auto simp: rule_messages_def)
qed

lemma required_topics_step:
  "required_topics_loop (rule_messages data r @ ms) acc =
     required_topics_loop ms
       (acc @ (if condition r data = Inr True \<and> action r = ''require'' then [rule_name r] else []))"
  by (auto simp: rule_messages_def split: sum.splits)

lemma required_topics_concat:
  "required_topics_loop (concat (map (rule_messages data) rs)) acc =
     Inr (acc @ map rule_name
            (filter (\<lambda>r. condition r data = Inr True \<and> action r = ''require'') rs))"
proof (induction rs arbitrary: acc)
  case Nil
  then show ?case by simp
next
  case (Cons r rs)
  show ?case
    by (simp only: list.map concat.simps required_topics_step Cons.IH) simp
qed

lemma topic_covered_loop_iff:
  "topic_covered_loop kws recs \<longleftrightarrow>
     (\<exists>rec \<in> set recs. \<exists>kw \<in> set kws. str_in kw (lower rec))"
  by (induction recs) (auto simp: list_ex_iff)

lemma missing_topics_loop_eq:
  "missing_topics_loop topics recs acc =
     acc @ filter (\<lambda>t. \<not> topic_covered_in_recommendations t recs) topics"
  by (induction topics arbitrary: acc) auto

lemma additional_step:
  "additional_loop (rule_messages data r @ ms) missing acc =
     additional_loop ms missing
       (acc @ (if condition r data = Inr True
                  \<and> (action r = ''recommend'' \<or> (action r = ''require'' \<and> rule_name r \<in> set missing))
               then [message r] else []))"
  by (auto simp: rule_messages_def split: sum.splits)

lemma additional_concat:
  "additional_loop (concat (map (rule_messages data) rs)) missing acc =
     Inr (acc @ map message
            (filter (\<lambda>r. condition r data = Inr True
               \<and> (action r = ''recommend'' \<or> (action r = ''require'' \<and> rule_name r \<in> set missing))) rs))"
proof (induction rs arbitrary: acc)
  case Nil
  then show ?case by simp
next
  case (Cons r rs)
  show ?case
    by (simp only: list.map concat.simps additional_step Cons.IH) simp
qed

text \<open>
  Claim C5. For every known domain, recommendation list and data mapping,
  \<open>validate_recommendations\<close> returns a result in which \<open>missing_topics\<close> lists, in catalog
  order, the names of the rules of action \<open>require\<close> whose condition holds and none of whose
  keywords occurs as a substring of a lower-cased recommendation; \<open>additional_recommendations\<close>
  lists the message of every rule of action \<open>recommend\<close> whose condition holds and of every
  rule of action \<open>require\<close> whose condition holds and whose name is among the missing topics;
  and \<open>valid\<close> says that no topic is missing. The \<open>valid\<close> flag of \<open>validate\<close> does not occur.
\<close>

theorem validate_recommendations_result:
  assumes "domain \<in> known_domains"
  shows "\<exists>rs res. rules domain = Some rs
     \<and> validate_recommendations domain recommendations data = Inr res
     \<and> missing_topics res =
         map rule_name
           (filter (\<lambda>r. condition r data = Inr True \<and> action r = ''require''
              \<and> \<not> (\<exists>rec \<in> set recommendations. \<exists>kw \<in> set (extract_keywords (rule_name r)).
                      str_in kw (lower rec))) rs)
     \<and> additional_recommendations res =
         map message
           (filter (\<lambda>r. condition r data = Inr True
              \<and> (action r = ''recommend''
                  \<or> (action r = ''require'' \<and> rule_name r \<in> set (missing_topics res)))) rs)
     \<and> rec_valid res = (missing_topics res = [])"
proof -
  from assms obtain rs where rs: "rules domain = Some rs"
    using rules_known by blast
  have msgs: "messages (validate domain data) = concat (map (rule_messages data) rs)"
    using foldl_validate_rule_messages [of data "[]" True rs] by (simp add: validate_known [OF rs])
  define missing where "missing =
     map rule_name
       (filter (\<lambda>r. condition r data = Inr True \<and> action r = ''require''
          \<and> \<not> (\<exists>rec \<in> set recommendations. \<exists>kw \<in> set (extract_keywords (rule_name r)).
                  str_in kw (lower rec))) rs)"
  have m: "missing_topics_loop (map rule_name
            (filter (\<lambda>r. condition r data = Inr True \<and> action r = ''require'') rs))
            recommendations [] = missing"
    by (simp add: missing_topics_loop_eq missing_def filter_map o_def
        topic_covered_in_recommendations_def topic_covered_loop_iff conj_assoc)
  have "validate_recommendations domain recommendations data =
     Inr \<lparr>rec_valid = (length missing = 0), missing_topics = missing,
          additional_recommendations = map message
            (filter (\<lambda>r. condition r data = Inr True
              \<and> (action r = ''recommend''
                  \<or> (action r = ''require'' \<and> rule_name r \<in> set missing))) rs),
          validation_messages = messages (validate domain data)\<rparr>"
    unfolding validate_recommendations_def Let_def msgs required_topics_concat
    by (simp add: m additional_concat)
  then show ?thesis
    using rs by (simp add: missing_def)
qed

subsection \<open>Guard rails at concrete records\<close>

lemmas cond_defs =
  cond_SCH_001_def cond_SCH_002_def cond_SCH_003_def cond_SCH_004_def cond_SCH_005_def
  cond_COST_001_def cond_COST_002_def cond_COST_003_def cond_COST_004_def cond_COST_005_def
  cond_SCOPE_001_def cond_SCOPE_002_def cond_SCOPE_003_def cond_SCOPE_004_def cond_SCOPE_005_def
  cond_RISK_001_def cond_RISK_002_def cond_RISK_003_def cond_RISK_004_def cond_RISK_005_def

lemmas py_op_defs =
  get_def dict_get_def py_lt_def py_gt_def py_ge_def py_compare_def fl_gt_def fl_ge_def fl_eq_def
  int_to_float_def

text \<open>
  The theorem at a schedule record with SPI 0.85: the recovery-plan requirement holds; the
  record is valid with the flag set and invalid without it.
\<close>

theorem validate_valid_iff_witness:
  "''cronograma'' \<in> known_domains
   \<and> valid (validate ''cronograma''
        [''spi'' \<mapsto> PFloat (Fin 0.85), ''requirement_SCH-002_met'' \<mapsto> PBool True])
   \<and> \<not> valid (validate ''cronograma'' [''spi'' \<mapsto> PFloat (Fin 0.85)])"
proof -
  have k: "''cronograma'' \<in> known_domains"
    by (simp add: known_domains_def)
  have rs: "rules ''cronograma'' = Some load_schedule_rules"
    by (simp add: rules_def)
  have a: "valid (validate ''cronograma''
        [''spi'' \<mapsto> PFloat (Fin 0.85), ''requirement_SCH-002_met'' \<mapsto> PBool True])"
    using validate_valid_iff [OF k,
        of "[''spi'' \<mapsto> PFloat (Fin 0.85), ''requirement_SCH-002_met'' \<mapsto> PBool True]"]
    by (simp add: rs load_schedule_rules_def cond_defs py_op_defs)
  have b: "\<not> valid (validate ''cronograma'' [''spi'' \<mapsto> PFloat (Fin 0.85)])"
    using validate_valid_iff [OF k, of "[''spi'' \<mapsto> PFloat (Fin 0.85)]"]
    by (simp add: rs load_schedule_rules_def cond_defs py_op_defs)
  show ?thesis using k a b by simp
qed

text \<open>
  The theorem at the unknown domain \<open>qualidade\<close>.
\<close>

theorem validate_unknown_domain_witness:
  "''qualidade'' \<notin> known_domains
   \<and> validate ''qualidade'' [''spi'' \<mapsto> PFloat (Fin 0.75)] =
       \<lparr>valid = False,
        messages = [Bare (''Dom'' @ [i_acute] @ ''nio inv'' @ [a_acute] @ ''lido: qualidade'')]\<rparr>"
proof -
  have k: "''qualidade'' \<notin> known_domains"
    by (simp add: known_domains_def)
  show ?thesis
    using k validate_unknown_domain [OF k, of "[''spi'' \<mapsto> PFloat (Fin 0.75)]"] by simp
qed

text \<open>
  The theorem at a schedule record whose delay is a string: the third condition raises
  \<open>TypeError\<close>, the other rules are reported as usual.
\<close>

theorem validate_partial_failure_witness:
  "''cronograma'' \<in> known_domains
   \<and> map (\<lambda>m. (msg_rule_id m, msg_action m))
        (messages (validate ''cronograma''
           [''spi'' \<mapsto> PFloat (Fin 0.75), ''atraso_dias'' \<mapsto> PStr ''quinze'',
            ''duracao_planejada'' \<mapsto> PInt 100, ''replanejamento'' \<mapsto> PBool True]))
       = [(''SCH-001'', ''notify''), (''SCH-002'', ''require''), (''SCH-003'', ''error''),
          (''SCH-004'', ''require'')]
   \<and> msg_message (messages (validate ''cronograma''
           [''spi'' \<mapsto> PFloat (Fin 0.75), ''atraso_dias'' \<mapsto> PStr ''quinze'',
            ''duracao_planejada'' \<mapsto> PInt 100, ''replanejamento'' \<mapsto> PBool True]) ! 2)
       = ''Erro ao aplicar regra: '' @ [apostrophe] @ ''>'' @ [apostrophe]
           @ '' not supported between instances of '' @ [apostrophe] @ ''str'' @ [apostrophe]
           @ '' and '' @ [apostrophe] @ ''float'' @ [apostrophe]"
proof -
  have k: "''cronograma'' \<in> known_domains"
    by (simp add: known_domains_def)
  have rs: "rules ''cronograma'' = Some load_schedule_rules"
    by (simp add: rules_def)
  have "messages (validate ''cronograma''
           [''spi'' \<mapsto> PFloat (Fin 0.75), ''atraso_dias'' \<mapsto> PStr ''quinze'',
            ''duracao_planejada'' \<mapsto> PInt 100, ''replanejamento'' \<mapsto> PBool True])
        = concat (map (rule_messages
           [''spi'' \<mapsto> PFloat (Fin 0.75), ''atraso_dias'' \<mapsto> PStr ''quinze'',
            ''duracao_planejada'' \<mapsto> PInt 100, ''replanejamento'' \<mapsto> PBool True])
            load_schedule_rules)"
    using validate_partial_failure [OF k,
        of "[''spi'' \<mapsto> PFloat (Fin 0.75), ''atraso_dias'' \<mapsto> PStr ''quinze'',
            ''duracao_planejada'' \<mapsto> PInt 100, ''replanejamento'' \<mapsto> PBool True]"]
    by (simp add: rs)
  then show ?thesis
    using k by (simp add: rule_messages_def load_schedule_rules_def cond_defs py_op_defs)
qed

text \<open>
  The theorem at a cost record with CPI 0.85, once with a recommendation that names the
  recovery plan and once with one that does not. In both cases \<open>validate\<close> itself answers
  invalid, since the requirement flag is not set.
\<close>

theorem validate_recommendations_result_witness:
  "''custos'' \<in> known_domains
   \<and> (\<exists>res. validate_recommendations ''custos''
          [''Elaborar um Plano de Recupera'' @ [c_cedil] @ [a_tilde] @ ''o dos custos'']
          [''cpi'' \<mapsto> PFloat (Fin 0.85)] = Inr res
        \<and> missing_topics res = [] \<and> rec_valid res
        \<and> additional_recommendations res = [message (load_cost_rules ! 4)])
   \<and> (\<exists>res. validate_recommendations ''custos'' [''Monitorar de perto todas as despesas futuras'']
          [''cpi'' \<mapsto> PFloat (Fin 0.85)] = Inr res
        \<and> missing_topics res = [rule_name (load_cost_rules ! 1)] \<and> \<not> rec_valid res
        \<and> additional_recommendations res
            = [message (load_cost_rules ! 1), message (load_cost_rules ! 4)])
   \<and> \<not> valid (validate ''custos'' [''cpi'' \<mapsto> PFloat (Fin 0.85)])"
proof -
  have k: "''custos'' \<in> known_domains"
    by (simp add: known_domains_def)
  have rs: "rules ''custos'' = Some load_cost_rules"
    by (simp add: rules_def)
  have kw: "extract_keywords (rule_name (load_cost_rules ! 1))
              = [''plano'', ''recupera'' @ [c_cedil] @ [a_tilde] @ ''o'', ''baixo'']"
    by code_simp
  have l1: "lower (''Elaborar um Plano de Recupera'' @ [c_cedil] @ [a_tilde] @ ''o dos custos'')
              = ''elaborar um plano de recupera'' @ [c_cedil] @ [a_tilde] @ ''o dos custos''"
    by code_simp
  have l2: "lower ''Monitorar de perto todas as despesas futuras''
              = ''monitorar de perto todas as despesas futuras''"
    by code_simp
  have a: "\<exists>res. validate_recommendations ''custos''
          [''Elaborar um Plano de Recupera'' @ [c_cedil] @ [a_tilde] @ ''o dos custos'']
          [''cpi'' \<mapsto> PFloat (Fin 0.85)] = Inr res
        \<and> missing_topics res = [] \<and> rec_valid res
        \<and> additional_recommendations res = [message (load_cost_rules ! 4)]"
    using validate_recommendations_result [OF k,
        of "[''Elaborar um Plano de Recupera'' @ [c_cedil] @ [a_tilde] @ ''o dos custos'']"
           "[''cpi'' \<mapsto> PFloat (Fin 0.85)]"] kw l1
    by (auto simp: rs load_cost_rules_def cond_defs py_op_defs)
  have b: "\<exists>res. validate_recommendations ''custos'' [''Monitorar de perto todas as despesas futuras'']
          [''cpi'' \<mapsto> PFloat (Fin 0.85)] = Inr res
        \<and> missing_topics res = [rule_name (load_cost_rules ! 1)] \<and> \<not> rec_valid res
        \<and> additional_recommendations res
            = [message (load_cost_rules ! 1), message (load_cost_rules ! 4)]"
    using validate_recommendations_result [OF k,
        of "[''Monitorar de perto todas as despesas futuras'']"
           "[''cpi'' \<mapsto> PFloat (Fin 0.85)]"] kw l2
    by (auto simp: rs load_cost_rules_def cond_defs py_op_defs)
  have c: "\<not> valid (validate ''custos'' [''cpi'' \<mapsto> PFloat (Fin 0.85)])"
    by (simp add: validate_def rs load_cost_rules_def validate_rule_def check_requirement_met_def
        cond_defs py_op_defs)
  show ?thesis using k a b c by blast
qed

subsection \<open>Pattern-based extraction\<close>

text \<open>
  Whenever the metrics are returned, the two detector keys are in them with a boolean value:
  the comprehension drops only values that are \<open>None\<close>.
\<close>

lemma extract_metrics_flags:
  assumes "extract_metrics text = Inr metrics"
  shows "\<exists>scope risk. map_of metrics ''scope_change_detected'' = Some (PBool scope)
           \<and> map_of metrics ''risk_detected'' = Some (PBool risk)"
proof -
  from assms obtain a b c d e f where
    m: "metrics = filter (\<lambda>(k, v). v \<noteq> PNone)
         [(''completion_percentage'', a), (''spi'', b), (''cpi'', c), (''budget'', d),
          (''actual_cost'', e), (''delay_days'', f),
          (''scope_change_detected'',
             PBool (list_ex (\<lambda>keyword. str_in keyword (lower text)) scope_change_keywords)),
          (''risk_detected'',
             PBool (list_ex (\<lambda>keyword. str_in keyword (lower text)) risk_keywords))]"
    unfolding extract_metrics_def Let_def
    by (auto simp: then_do_eq_Inr)
  show ?thesis
    unfolding m by simp
qed

text \<open>
  Claim C9. On the text \<open>50% concluido... SPI de 0.85... Atraso de 10 dias\<close> of the scenario
  (with the accented i in the second word) the extraction
  gives the completion percentage 50.0 and the delay 10.0 and detects no scope change, as the
  claim says; but the SPI pattern allows only whitespace and one of \<open>:\<close>, \<open>=\<close>, \<open>-\<close> between
  \<open>SPI\<close> and the number, so \<open>SPI de 0.85\<close> does not match, the metrics have no \<open>spi\<close>, and the
  schedule health of the absent index is \<open>unknown\<close>, not \<open>warning\<close>.
\<close>

theorem end_to_end_scenario_spi_absent:
  "extract_metrics (''50% conclu'' @ [i_acute] @ ''do... SPI de 0.85... Atraso de 10 dias'')
     = Inr [(''completion_percentage'', PFloat (Fin 50)), (''delay_days'', PFloat (Fin 10)),
            (''scope_change_detected'', PBool False), (''risk_detected'', PBool False)]
   \<and> health_status (evaluate_schedule_health
        (get (map_of [(''completion_percentage'', PFloat (Fin 50)),
                      (''delay_days'', PFloat (Fin 10)),
                      (''scope_change_detected'', PBool False),
                      (''risk_detected'', PBool False)]) ''spi''))
     = Inr ''unknown''"
  by code_simp

text \<open>
  Claim C10. On the readable text \<open>Orcamento: R$ 1,000,000\<close> (with the cedilla) the budget
  pattern captures
  \<open>1,000,000\<close>, which becomes \<open>1.000.000\<close>; \<open>float\<close> raises \<open>ValueError\<close> and nothing catches
  it, so \<open>process_status_file\<close> returns no metrics mapping at all.
\<close>

theorem monetary_value_raises:
  "process_status_file (\<lambda>path. Content (''Or'' @ [c_cedil] @ ''amento: R$ 1,000,000''))
     (\<lambda>text. []) ''relatorio.txt''
     = Inl (ValueError (''could not convert string to float: '' @ [apostrophe] @ ''1.000.000''
              @ [apostrophe]))"
  by code_simp

text \<open>
  With a colon after \<open>SPI\<close> the same text gives \<open>spi = 0.85\<close>, which is classified
  \<open>warning\<close>.
\<close>

lemma spi_with_separator_extracted:
  "extract_metrics (''50% conclu'' @ [i_acute] @ ''do... SPI: 0.85... Atraso de 10 dias'')
     = Inr [(''completion_percentage'', PFloat (Fin 50)), (''spi'', PFloat (Fin 0.85)),
            (''delay_days'', PFloat (Fin 10)),
            (''scope_change_detected'', PBool False), (''risk_detected'', PBool False)]
   \<and> health_status (evaluate_schedule_health (PFloat (Fin 0.85))) = Inr ''warning''"
  by code_simp

end
